theory Spec2Isabelle
  imports Main
begin

section \<open>The demo client: \<^verbatim>\<open>MatrixAgentSender\<close> (agents/demo.py)\<close>

text \<open>
  The sender talks to Synapse over HTTP and keeps four fields. Every method is an
  \<^verbatim>\<open>async def\<close> that is awaited by one sequential caller, so a method is modelled
  as a function from the sender's state to a result and the state it leaves behind.
  An exception is the left injection of the result; the state is returned in both cases,
  as the object outlives the exception.
\<close>

subsection \<open>JSON values as Python sees them\<close>

text \<open>
  \<^verbatim>\<open>resp.json()\<close> yields an arbitrary Python value built from \<^verbatim>\<open>None\<close>, booleans,
  numbers, strings, lists and dicts. A dict is kept as the list of its items (the keys
  are distinct). The program never computes with a number: it only tests it for
  truthiness and compares it with strings, so a number is kept as an integer (a
  non-integral number behaves as any non-zero one).
\<close>

datatype json =
    JNull
  | JBool bool
  | JNum int
  | JStr string
  | JArr "json list"
  | JObj "(string \<times> json) list"

datatype py_error =
    RuntimeError string
  | JSONDecodeError
  | AttributeError
  | TypeError
  | KeyError
  | HTTPError

text \<open>Truthiness of a value, as \<^verbatim>\<open>if x\<close> and \<^verbatim>\<open>x or y\<close> test it.\<close>

fun truthy :: "json \<Rightarrow> bool" where
  "truthy JNull = False"
| "truthy (JBool b) = b"
| "truthy (JNum n) = (n \<noteq> 0)"
| "truthy (JStr s) = (s \<noteq> [])"
| "truthy (JArr xs) = (xs \<noteq> [])"
| "truthy (JObj kv) = (kv \<noteq> [])"

definition py_or :: "json \<Rightarrow> json \<Rightarrow> json" where
  "py_or a b = (if truthy a then a else b)"

text \<open>\<^verbatim>\<open>d.get(k)\<close> on a dict: the value, or \<^verbatim>\<open>None\<close>.\<close>

definition dict_get :: "(string \<times> json) list \<Rightarrow> string \<Rightarrow> json" where
  "dict_get kv k = (case map_of kv k of None \<Rightarrow> JNull | Some v \<Rightarrow> v)"

text \<open>\<^verbatim>\<open>x.get(k, default)\<close> on any value: only a dict has the method.\<close>

fun py_get_default :: "json \<Rightarrow> string \<Rightarrow> json \<Rightarrow> py_error + json" where
  "py_get_default (JObj kv) k d = Inr (case map_of kv k of None \<Rightarrow> d | Some v \<Rightarrow> v)"
| "py_get_default _ k d = Inl AttributeError"

text \<open>\<^verbatim>\<open>x[k]\<close> with a string key: a missing key of a dict is a KeyError, anything
  else cannot be indexed by a string.\<close>

fun py_index :: "json \<Rightarrow> string \<Rightarrow> py_error + json" where
  "py_index (JObj kv) k = (case map_of kv k of None \<Rightarrow> Inl KeyError | Some v \<Rightarrow> Inr v)"
| "py_index _ k = Inl TypeError"

text \<open>\<^verbatim>\<open>for x in v\<close>: a list gives its elements, a dict its keys, a string its
  characters (each a string again, so that below only whether there is one matters); nothing else
  is iterable.\<close>

fun py_iter :: "json \<Rightarrow> py_error + json list" where
  "py_iter (JArr xs) = Inr xs"
| "py_iter (JObj kv) = Inr (map (\<lambda>(k, v). JStr k) kv)"
| "py_iter (JStr s) = Inr (map (\<lambda>c. JStr [c]) s)"
| "py_iter _ = Inl TypeError"

text \<open>Decimal rendering of an integer, for the \<^verbatim>\<open>{resp.status_code}\<close> of the
  error messages.\<close>

function str_nat :: "nat \<Rightarrow> string" where
  "str_nat n = (if n < 10 then [char_of (48 + n)] else str_nat (n div 10) @ [char_of (48 + n mod 10)])"
  by pat_completeness auto
termination
  by (relation "measure id") auto

definition str_int :: "int \<Rightarrow> string" where
  "str_int i = (if i < 0 then ''-'' @ str_nat (nat (- i)) else str_nat (nat i))"

subsection \<open>HTTP exchanges\<close>

text \<open>
  A response, as far as the program reads it: the status code, the body as text and the
  body as \<^verbatim>\<open>resp.json()\<close> decodes it (\<open>None\<close> when the body is not JSON and
  decoding raises).
\<close>

record response =
  status_code :: int
  resp_text :: string
  resp_json :: "json option"

text \<open>A request either raises inside httpx (no connection, a timeout) or is answered.
  What httpx raises is kept as \<open>HTTPError\<close>, the base class of its exceptions.\<close>

datatype outcome = NetworkError | Answer response

text \<open>
  The requests the sender makes, one constructor per call site, each with the values
  that the source puts into the URL, the headers and the body:
  the admin login; the appservice registration of a localpart; the display name of an
  MXID; the room listing with the admin token; the join and the invite of an MXID to a
  room; the message sent to a room as an MXID. The transaction id of a message comes
  from the wall clock and is not kept.
\<close>

datatype request =
    Login
  | Register string
  | PutDisplayName string string
  | ListRooms json
  | Join string string
  | Invite string string
  | SendEvent string string string

type_synonym exchange = "request \<times> outcome"

text \<open>
  What the program does not define is a parameter: the server name of the configuration,
  Python's \<^verbatim>\<open>str.lower\<close> and \<^verbatim>\<open>str.title\<close>, and the server, which answers a request
  given every exchange so far. A string is the sequence of the bytes of its UTF-8 form:
  comparing strings, replacing spaces and deleting what is outside \<^verbatim>\<open>[a-z0-9-]\<close> are
  the same on bytes as on Python's code points, while lowercasing is not and is therefore
  left to the parameter.
\<close>

record env =
  SERVER_NAME :: string
  str_lower :: "string \<Rightarrow> string"
  str_title :: "string \<Rightarrow> string"
  server :: "exchange list \<Rightarrow> request \<Rightarrow> outcome"

definition BRIDGE_BOT_MXID :: "env \<Rightarrow> string" where
  "BRIDGE_BOT_MXID E = ''@mattermostbot:'' @ SERVER_NAME E"

text \<open>
  The fields of the sender (\<^verbatim>\<open>_registered\<close>, \<^verbatim>\<open>_joined\<close>, \<^verbatim>\<open>_room_cache\<close>,
  \<^verbatim>\<open>_admin_token\<close>, where \<^verbatim>\<open>None\<close> is \<open>JNull\<close>), and the exchanges made so far.
\<close>

record sender =
  registered :: "string set"
  joined :: "(string \<times> string) set"
  room_cache :: "string \<rightharpoonup> json"
  admin_token :: json
  http_log :: "exchange list"

definition init_sender :: sender where
  "init_sender = \<lparr>registered = {}, joined = {}, room_cache = Map.empty,
     admin_token = JNull, http_log = []\<rparr>"

definition http :: "env \<Rightarrow> request \<Rightarrow> sender \<Rightarrow> outcome \<times> sender" where
  "http E r s =
     (let out = server E (http_log s) r
      in (out, s\<lparr>http_log := http_log s @ [(r, out)]\<rparr>))"

definition mxid :: "env \<Rightarrow> string \<Rightarrow> string" where
  "mxid E agent_name = ''@agent-'' @ agent_name @ '':'' @ SERVER_NAME E"

subsection \<open>The methods\<close>

definition get_admin_token :: "env \<Rightarrow> sender \<Rightarrow> (py_error + json) \<times> sender" where
  "get_admin_token E s =
     (if truthy (admin_token s) then (Inr (admin_token s), s)
      else
        (case http E Login s of
           (NetworkError, s1) \<Rightarrow> (Inl HTTPError, s1)
         | (Answer resp, s1) \<Rightarrow>
             if status_code resp = 200 then
               (case resp_json resp of
                  None \<Rightarrow> (Inl JSONDecodeError, s1)
                | Some j \<Rightarrow>
                    (case py_index j ''access_token'' of
                       Inl e \<Rightarrow> (Inl e, s1)
                     | Inr tok \<Rightarrow> (Inr tok, s1\<lparr>admin_token := tok\<rparr>)))
             else
               (Inl (RuntimeError (''Admin login failed: '' @ str_int (status_code resp)
                                    @ '' '' @ resp_text resp)), s1)))"

text \<open>The check of the registration response (lines 143 to 147).\<close>

definition check_register :: "string \<Rightarrow> response \<Rightarrow> py_error + unit" where
  "check_register localpart resp =
     (if status_code resp = 400 then
        (case resp_json resp of
           None \<Rightarrow> Inl JSONDecodeError
         | Some error \<Rightarrow>
             (case py_get_default error ''errcode'' JNull of
                Inl e \<Rightarrow> Inl e
              | Inr code \<Rightarrow>
                  if code \<noteq> JStr ''M_USER_IN_USE''
                  then Inl (RuntimeError (''Failed to register '' @ localpart @ '': '' @ resp_text resp))
                  else Inr ()))
      else Inr ())"

definition register_agent :: "env \<Rightarrow> string \<Rightarrow> string \<Rightarrow> sender \<Rightarrow> (py_error + unit) \<times> sender" where
  "register_agent E agent_name display_name s =
     (if agent_name \<in> registered s then (Inr (), s)
      else
        (let localpart = ''agent-'' @ agent_name in
         case http E (Register localpart) s of
           (NetworkError, s1) \<Rightarrow> (Inl HTTPError, s1)
         | (Answer resp, s1) \<Rightarrow>
             (case check_register localpart resp of
                Inl e \<Rightarrow> (Inl e, s1)
              | Inr _ \<Rightarrow>
                  (case http E (PutDisplayName (mxid E agent_name) display_name) s1 of
                     (NetworkError, s2) \<Rightarrow> (Inl HTTPError, s2)
                   | (Answer _, s2) \<Rightarrow>
                       (Inr (), s2\<lparr>registered := insert agent_name (registered s2)\<rparr>)))))"

text \<open>
  The normalisation of a room name (line 193):
  \<^verbatim>\<open>re.sub(r"[^a-z0-9-]", "", name.lower().replace(" ", "-"))\<close>.
\<close>

definition slug_char :: "char \<Rightarrow> bool" where
  "slug_char c = (c \<in> set ''abcdefghijklmnopqrstuvwxyz0123456789-'')"

definition normalized :: "env \<Rightarrow> string \<Rightarrow> string" where
  "normalized E name =
     filter slug_char (map (\<lambda>c. if c = CHR '' '' then CHR ''-'' else c) (str_lower E name))"

text \<open>
  The loop over the listed rooms (lines 184 to 201): the first room created by the bridge
  bot whose normalised name is the channel name gives its room id. A room that is not a
  dict has no \<^verbatim>\<open>get\<close>, and a name that is not a string has no \<^verbatim>\<open>lower\<close>.
\<close>

fun scan_rooms :: "env \<Rightarrow> string \<Rightarrow> json list \<Rightarrow> py_error + json option" where
  "scan_rooms E channel_name [] = Inr None"
| "scan_rooms E channel_name (room # rest) =
     (case room of
        JObj kv \<Rightarrow>
          (let name = py_or (dict_get kv ''name'') (JStr '''');
               creator = py_or (dict_get kv ''creator'') (JStr '''');
               room_id = py_or (dict_get kv ''room_id'') (JStr '''')
           in if creator \<noteq> JStr (BRIDGE_BOT_MXID E) then scan_rooms E channel_name rest
              else
                (case name of
                   JStr nm \<Rightarrow>
                     if normalized E nm = channel_name then Inr (Some room_id)
                     else scan_rooms E channel_name rest
                 | _ \<Rightarrow> Inl AttributeError))
      | _ \<Rightarrow> Inl AttributeError)"

text \<open>The rooms of a listing response with status 200 (lines 182 and 184).\<close>

definition listed_rooms :: "response \<Rightarrow> py_error + json list" where
  "listed_rooms resp =
     (case resp_json resp of
        None \<Rightarrow> Inl JSONDecodeError
      | Some j \<Rightarrow>
          (case py_get_default j ''rooms'' (JArr []) of
             Inl e \<Rightarrow> Inl e
           | Inr rooms \<Rightarrow> py_iter rooms))"

definition find_portal_room :: "env \<Rightarrow> string \<Rightarrow> sender \<Rightarrow> (py_error + json option) \<times> sender" where
  "find_portal_room E channel_name s =
     (case room_cache s channel_name of
        Some room_id \<Rightarrow> (Inr (Some room_id), s)
      | None \<Rightarrow>
          (case get_admin_token E s of
             (Inl e, s1) \<Rightarrow> (Inl e, s1)
           | (Inr token, s1) \<Rightarrow>
               (case http E (ListRooms token) s1 of
                  (NetworkError, s2) \<Rightarrow> (Inl HTTPError, s2)
                | (Answer resp, s2) \<Rightarrow>
                    if status_code resp \<noteq> 200 then (Inr None, s2)
                    else
                      (case listed_rooms resp of
                         Inl e \<Rightarrow> (Inl e, s2)
                       | Inr rooms \<Rightarrow>
                           (case scan_rooms E channel_name rooms of
                              Inl e \<Rightarrow> (Inl e, s2)
                            | Inr None \<Rightarrow> (Inr None, s2)
                            | Inr (Some room_id) \<Rightarrow>
                                (Inr (Some room_id),
                                 s2\<lparr>room_cache := (room_cache s2)(channel_name \<mapsto> room_id)\<rparr>))))))"

definition ensure_joined :: "env \<Rightarrow> string \<Rightarrow> string \<Rightarrow> sender \<Rightarrow> (py_error + unit) \<times> sender" where
  "ensure_joined E agent_name room_id s =
     (let key = (agent_name, room_id) in
      if key \<in> joined s then (Inr (), s)
      else
        (case http E (Join room_id (mxid E agent_name)) s of
           (NetworkError, s1) \<Rightarrow> (Inl HTTPError, s1)
         | (Answer resp, s1) \<Rightarrow>
             if status_code resp = 200 then (Inr (), s1\<lparr>joined := insert key (joined s1)\<rparr>)
             else
               (case http E (Invite room_id (mxid E agent_name)) s1 of
                  (NetworkError, s2) \<Rightarrow> (Inl HTTPError, s2)
                | (Answer _, s2) \<Rightarrow>
                    (case http E (Join room_id (mxid E agent_name)) s2 of
                       (NetworkError, s3) \<Rightarrow> (Inl HTTPError, s3)
                     | (Answer resp2, s3) \<Rightarrow>
                         if status_code resp2 = 200
                         then (Inr (), s3\<lparr>joined := insert key (joined s3)\<rparr>)
                         else (Inr (), s3)))))"

definition send_message :: "env \<Rightarrow> string \<Rightarrow> string \<Rightarrow> string \<Rightarrow> sender \<Rightarrow> (py_error + json) \<times> sender" where
  "send_message E agent_name room_id message s =
     (case register_agent E agent_name (str_title E agent_name) s of
        (Inl e, s1) \<Rightarrow> (Inl e, s1)
      | (Inr _, s1) \<Rightarrow>
          (case ensure_joined E agent_name room_id s1 of
             (Inl e, s2) \<Rightarrow> (Inl e, s2)
           | (Inr _, s2) \<Rightarrow>
               (case http E (SendEvent room_id (mxid E agent_name) message) s2 of
                  (NetworkError, s3) \<Rightarrow> (Inl HTTPError, s3)
                | (Answer resp, s3) \<Rightarrow>
                    if status_code resp \<notin> {200, 201} then
                      (Inl (RuntimeError (''Send failed as '' @ agent_name @ '': ''
                             @ str_int (status_code resp) @ '' '' @ resp_text resp)), s3)
                    else
                      (case resp_json resp of
                         None \<Rightarrow> (Inl JSONDecodeError, s3)
                       | Some j \<Rightarrow>
                           (case py_get_default j ''event_id'' (JStr '''') of
                              Inl e \<Rightarrow> (Inl e, s3)
                            | Inr event_id \<Rightarrow> (Inr event_id, s3))))))"

text \<open>
  A caller uses the sender through its four public methods. A call leaves a state behind
  whether it returns or raises; a run is a sequence of calls.
\<close>

datatype call =
    CallRegisterAgent string string
  | CallFindPortalRoom string
  | CallEnsureJoined string string
  | CallSendMessage string string string

fun exec_call :: "env \<Rightarrow> call \<Rightarrow> sender \<Rightarrow> sender" where
  "exec_call E (CallRegisterAgent a d) s = snd (register_agent E a d s)"
| "exec_call E (CallFindPortalRoom c) s = snd (find_portal_room E c s)"
| "exec_call E (CallEnsureJoined a r) s = snd (ensure_joined E a r s)"
| "exec_call E (CallSendMessage a r m) s = snd (send_message E a r m s)"

fun exec_calls :: "env \<Rightarrow> call list \<Rightarrow> sender \<Rightarrow> sender" where
  "exec_calls E [] s = s"
| "exec_calls E (c # cs) s = exec_calls E cs (exec_call E c s)"

subsection \<open>Predicates on the sender and its log of exchanges\<close>

text \<open>
  A later state extends an earlier one: names stay registered, pairs stay joined, cache
  entries stay as they are and the log of exchanges only grows.
\<close>

definition grows :: "sender \<Rightarrow> sender \<Rightarrow> bool" where
  "grows s s' = (registered s \<subseteq> registered s' \<and> joined s \<subseteq> joined s'
     \<and> room_cache s \<subseteq>\<^sub>m room_cache s' \<and> (\<exists>l. http_log s' = http_log s @ l))"

text \<open>
  The log holds a join request for the agent and the room that was answered with
  status 200.
\<close>

definition join_ok :: "env \<Rightarrow> string \<Rightarrow> string \<Rightarrow> exchange list \<Rightarrow> bool" where
  "join_ok E agent_name room_id log =
     list_ex (\<lambda>x. case x of
                    (Join r m, Answer resp) \<Rightarrow> r = room_id \<and> m = mxid E agent_name \<and> status_code resp = 200
                  | _ \<Rightarrow> False) log"

definition joined_inv :: "env \<Rightarrow> sender \<Rightarrow> bool" where
  "joined_inv E s = (\<forall>(a, r) \<in> joined s. join_ok E a r (http_log s))"

text \<open>
  A listed room matches a channel name when it is a dict whose creator is the bridge bot
  and whose name (the empty string when the room has none) normalises to the channel
  name. Its room id is what line 187 reads.
\<close>

definition room_matches :: "env \<Rightarrow> string \<Rightarrow> json \<Rightarrow> bool" where
  "room_matches E channel_name room =
     (case room of
        JObj kv \<Rightarrow>
          dict_get kv ''creator'' = JStr (BRIDGE_BOT_MXID E) \<and>
          (case py_or (dict_get kv ''name'') (JStr '''') of
             JStr nm \<Rightarrow> normalized E nm = channel_name
           | _ \<Rightarrow> False)
      | _ \<Rightarrow> False)"

definition room_id_of :: "json \<Rightarrow> json" where
  "room_id_of room = (case room of JObj kv \<Rightarrow> py_or (dict_get kv ''room_id'') (JStr '''') | _ \<Rightarrow> JNull)"

text \<open>The rooms that an exchange of the log listed: those of a room listing answered
  with status 200 and a body that decodes to rooms.\<close>

definition listing_of :: "exchange \<Rightarrow> json list" where
  "listing_of x =
     (case x of
        (ListRooms token, Answer resp) \<Rightarrow>
          if status_code resp = 200
          then (case listed_rooms resp of Inr rooms \<Rightarrow> rooms | Inl e \<Rightarrow> [])
          else []
      | _ \<Rightarrow> [])"

definition was_listed :: "env \<Rightarrow> string \<Rightarrow> json \<Rightarrow> exchange list \<Rightarrow> bool" where
  "was_listed E channel_name rid log =
     list_ex (\<lambda>x. list_ex (\<lambda>room. room_matches E channel_name room \<and> room_id_of room = rid)
                     (listing_of x)) log"

text \<open>A room as Synapse lists it: a dict whose name, when it has one, is a string.\<close>

definition wf_room :: "json \<Rightarrow> bool" where
  "wf_room room =
     (case room of
        JObj kv \<Rightarrow> (case py_or (dict_get kv ''name'') (JStr '''') of JStr nm \<Rightarrow> True | _ \<Rightarrow> False)
      | _ \<Rightarrow> False)"

definition cache_inv :: "env \<Rightarrow> sender \<Rightarrow> bool" where
  "cache_inv E s = (\<forall>ch rid. room_cache s ch = Some rid \<longrightarrow> was_listed E ch rid (http_log s))"

subsection \<open>Synapse servers to run the sender against\<close>

text \<open>
  On ASCII strings \<^verbatim>\<open>str.lower\<close> and \<^verbatim>\<open>str.title\<close> are the two functions below.
  The first server has the agents registered already, lets everyone join and lists two
  rooms; the second refuses the registration, the listing and every join; the third
  lets the admin log in and then does not answer a listing or a join in time, so that
  the request raises inside httpx. The last is a room that is invite-only: a join is
  refused until the MXID has been invited, and what becomes of the invite and of the join
  after it is given.
\<close>

definition ascii_lower :: "string \<Rightarrow> string" where
  "ascii_lower s =
     map (\<lambda>c. case map_of (zip ''ABCDEFGHIJKLMNOPQRSTUVWXYZ'' ''abcdefghijklmnopqrstuvwxyz'') c of
                 None \<Rightarrow> c | Some l \<Rightarrow> l) s"

fun title_from :: "bool \<Rightarrow> string \<Rightarrow> string" where
  "title_from inside [] = []"
| "title_from inside (c # cs) =
     (case map_of (zip ''abcdefghijklmnopqrstuvwxyz'' ''ABCDEFGHIJKLMNOPQRSTUVWXYZ'') c of
        Some u \<Rightarrow> (if inside then c else u) # title_from True cs
      | None \<Rightarrow>
          (case map_of (zip ''ABCDEFGHIJKLMNOPQRSTUVWXYZ'' ''abcdefghijklmnopqrstuvwxyz'') c of
             Some l \<Rightarrow> (if inside then l else c) # title_from True cs
           | None \<Rightarrow> c # title_from False cs))"

definition demo_env :: "(exchange list \<Rightarrow> request \<Rightarrow> outcome) \<Rightarrow> env" where
  "demo_env srv = \<lparr>SERVER_NAME = ''localhost'', str_lower = ascii_lower,
     str_title = title_from False, server = srv\<rparr>"

definition ok_response :: "json \<Rightarrow> response" where
  "ok_response j = \<lparr>status_code = 200, resp_text = ''ok'', resp_json = Some j\<rparr>"

definition error_response :: "int \<Rightarrow> string \<Rightarrow> response" where
  "error_response code errcode =
     \<lparr>status_code = code, resp_text = errcode, resp_json = Some (JObj [(''errcode'', JStr errcode)])\<rparr>"

definition town_square :: json where
  "town_square = JObj [(''room_id'', JStr ''!town:localhost''), (''name'', JStr ''Town Square''),
                       (''creator'', JStr ''@mattermostbot:localhost'')]"

definition lobby :: json where
  "lobby = JObj [(''room_id'', JStr ''!lobby:localhost''), (''name'', JStr ''town-square''),
                 (''creator'', JStr ''@admin:localhost'')]"

definition synapse_ready :: "exchange list \<Rightarrow> request \<Rightarrow> outcome" where
  "synapse_ready h q =
     (case q of
        Login \<Rightarrow> Answer (ok_response (JObj [(''access_token'', JStr ''syt_admin'')]))
      | Register l \<Rightarrow> Answer (error_response 400 ''M_USER_IN_USE'')
      | ListRooms t \<Rightarrow> Answer (ok_response (JObj [(''rooms'', JArr [lobby, town_square])]))
      | _ \<Rightarrow> Answer (ok_response (JObj [])))"

definition synapse_refusing :: "exchange list \<Rightarrow> request \<Rightarrow> outcome" where
  "synapse_refusing h q =
     (case q of
        Login \<Rightarrow> Answer (ok_response (JObj [(''access_token'', JStr ''syt_admin'')]))
      | Register l \<Rightarrow> Answer (error_response 400 ''M_EXCLUSIVE'')
      | ListRooms t \<Rightarrow> Answer (error_response 500 ''M_UNKNOWN'')
      | Join r m \<Rightarrow> Answer (error_response 403 ''M_FORBIDDEN'')
      | _ \<Rightarrow> Answer (ok_response (JObj [])))"

definition synapse_timing_out :: "exchange list \<Rightarrow> request \<Rightarrow> outcome" where
  "synapse_timing_out h q =
     (case q of
        Login \<Rightarrow> Answer (ok_response (JObj [(''access_token'', JStr ''syt_admin'')]))
      | ListRooms t \<Rightarrow> NetworkError
      | Join r m \<Rightarrow> NetworkError
      | _ \<Rightarrow> Answer (ok_response (JObj [])))"

definition synapse_invite_only :: "outcome \<Rightarrow> outcome \<Rightarrow> exchange list \<Rightarrow> request \<Rightarrow> outcome" where
  "synapse_invite_only on_invite on_rejoin h q =
     (case q of
        Join r m \<Rightarrow>
          if list_ex (\<lambda>x. fst x = Invite r m) h then on_rejoin
          else Answer (error_response 403 ''M_FORBIDDEN'')
      | Invite r m \<Rightarrow> on_invite
      | _ \<Rightarrow> Answer (ok_response (JObj [])))"

definition coder_registered :: sender where
  "coder_registered = init_sender
     \<lparr>http_log := [(Register ''agent-coder'', Answer (error_response 400 ''M_USER_IN_USE'')),
                   (PutDisplayName ''@agent-coder:localhost'' ''Coder'', Answer (ok_response (JObj [])))],
      registered := {''coder''}\<rparr>"

definition admin_logged_in :: sender where
  "admin_logged_in = init_sender
     \<lparr>http_log := [(Login, Answer (ok_response (JObj [(''access_token'', JStr ''syt_admin'')])))],
      admin_token := JStr ''syt_admin''\<rparr>"

section \<open>The puppet router as the demo quotes it\<close>

text \<open>
  The bridge's Go source is not among the sources; the second message of \<^verbatim>\<open>CONVERSATION\<close>
  (agents/demo.py, lines 339 to 353) quotes its \<^verbatim>\<open>resolvePostClient\<close>, which the
  specification calls \<^verbatim>\<open>resolveOutboundIdentity\<close>. The function below is that Go text.
  The type of a puppet's client is not shown and stays a type parameter. Both arguments
  are pointers that the text dereferences without a check, so a nil argument that is
  reached panics.
\<close>

record 'c puppet =
  Client :: 'c
  UserID :: string

record orig_sender =
  OrigUserID :: string

record event =
  Sender :: string

record 'c mattermost_client =
  Puppets :: "string \<rightharpoonup> 'c puppet"
  client :: 'c
  userID :: string

datatype go_panic = NilPointerDereference

definition resolvePostClient ::
  "'c mattermost_client \<Rightarrow> orig_sender option \<Rightarrow> event option \<Rightarrow> go_panic + ('c \<times> string)" where
  "resolvePostClient m origSender evt =
     (case origSender of
        None \<Rightarrow> Inl NilPointerDereference
      | Some os \<Rightarrow>
          (case Puppets m (OrigUserID os) of
             Some puppet \<Rightarrow> Inr (Client puppet, UserID puppet)
           | None \<Rightarrow>
               (case evt of
                  None \<Rightarrow> Inl NilPointerDereference
                | Some e \<Rightarrow>
                    (case Puppets m (Sender e) of
                       Some puppet \<Rightarrow> Inr (Client puppet, UserID puppet)
                     | None \<Rightarrow> Inr (client m, userID m)))))"

text \<open>A client with the puppets of two of the demo's agents.\<close>

definition demo_bridge :: "string mattermost_client" where
  "demo_bridge =
     \<lparr>Puppets = [''@agent-coder:localhost'' \<mapsto> \<lparr>Client = ''token-coder'', UserID = ''mm-coder''\<rparr>,
                 ''@agent-researcher:localhost'' \<mapsto> \<lparr>Client = ''token-researcher'', UserID = ''mm-researcher''\<rparr>],
      client = ''token-relay'', userID = ''mm-relay''\<rparr>"

section \<open>The relay engine as the specification describes it\<close>

text \<open>
  The Echo Guard, the Relay Router and the Ingestion Loop are parts of the bridge and are
  not among the sources. The definitions of this section follow the specification's
  sections 3 and 4 word by word; each says what it stands in for.
\<close>

type_synonym identity = string

text \<open>Modelled from the spec: the Puppet of section 3, a pairing of one source identity
  with one destination account; the bridge's own type is missing. The credential is
  opaque.\<close>

record 'c puppet_entry =
  source_identity :: identity
  destination_identity :: identity
  destination_credential :: 'c
  created_at :: nat

type_synonym 'c puppet_map = "'c puppet_entry list"

text \<open>Modelled from the spec: \<^verbatim>\<open>lookup(identity) -> Puppet | not-found\<close> of section 4.1;
  the Puppet Map's code is missing.\<close>

definition lookup :: "'c puppet_map \<Rightarrow> identity \<Rightarrow> 'c puppet_entry option" where
  "lookup pm i = find (\<lambda>p. source_identity p = i) pm"

text \<open>Modelled from the spec: \<^verbatim>\<open>lookupByDestination(destination_identity) -> Identity | not-found\<close>
  of section 4.1, the destination-identity index; the Puppet Map's code is missing.\<close>

definition lookupByDestination :: "'c puppet_map \<Rightarrow> identity \<Rightarrow> identity option" where
  "lookupByDestination pm d = map_option source_identity (find (\<lambda>p. destination_identity p = d) pm)"

text \<open>Modelled from the spec: the Inbound Event of section 3, with the two things that
  sections 4.2 and 4.3 say an event may carry: origin metadata naming an identity, and
  the protocol's relayed marker. The bridge's event type is missing.\<close>

record inbound_event =
  protocol_origin :: string
  sender_identity :: identity
  channel_id :: string
  payload :: string
  event_id :: string
  timestamp :: nat
  origin_metadata :: "identity option"
  relayed_marker :: bool

text \<open>Modelled from the spec: the Relay Record of section 3; the bridge's type is
  missing.\<close>

record relay_record =
  source_event_id :: string
  destination_event_id :: string
  recorded_at :: nat

text \<open>Modelled from the spec: the failures of the destination API in section 7, and the
  destination collaborator \<^verbatim>\<open>send-as-account(credential, channel, payload) -> post_id\<close>
  of section 6, which is outside the bridge and a parameter here.\<close>

datatype api_error = TransientNetworkError | AuthError

type_synonym 'c destination_api = "'c \<Rightarrow> string \<Rightarrow> string \<Rightarrow> api_error + string"

text \<open>Modelled from the spec: the state of the bridge that sections 4.2 to 4.4 read: the
  Puppet Map, the bridge's own bot account, the configured relay credential with its
  account, and the retained Relay Records. How an event matches a record is left open by
  the specification and is a parameter. \<open>relay_calls\<close> lists the events on which
  \<^verbatim>\<open>relay\<close> was invoked. The bridge's own state is missing.\<close>

record 'c bridge =
  puppets :: "'c puppet_map"
  bot_identity :: identity
  relay_credential :: 'c
  relay_identity :: identity
  record_matches :: "relay_record \<Rightarrow> inbound_event \<Rightarrow> bool"
  relay_records :: "relay_record list"
  relay_calls :: "inbound_event list"

text \<open>Modelled from the spec: the classification order of the Echo Guard in section 4.2,
  giving the number of the first rule that matches; the Echo Guard's code is missing.\<close>

definition echo_rule :: "'c bridge \<Rightarrow> inbound_event \<Rightarrow> nat option" where
  "echo_rule B ev =
     (if sender_identity ev = bot_identity B then Some 1
      else if relayed_marker ev then Some 2
      else if lookupByDestination (puppets B) (sender_identity ev) \<noteq> None then Some 3
      else if list_ex (\<lambda>r. record_matches B r ev) (relay_records B) then Some 4
      else None)"

text \<open>Modelled from the spec: \<^verbatim>\<open>isEcho(event) -> bool\<close> of section 4.2; the Echo
  Guard's code is missing.\<close>

definition isEcho :: "'c bridge \<Rightarrow> inbound_event \<Rightarrow> bool" where
  "isEcho B ev = (echo_rule B ev \<noteq> None)"

text \<open>Modelled from the spec: the event is an echo by one of the rules 1 to 3 of
  section 4.2.\<close>

definition early_echo :: "'c bridge \<Rightarrow> inbound_event \<Rightarrow> bool" where
  "early_echo B ev = (echo_rule B ev = Some 1 \<or> echo_rule B ev = Some 2 \<or> echo_rule B ev = Some 3)"

text \<open>Modelled from the spec: path 1 of section 4.3, the puppet that the origin metadata
  names; the Relay Router's code is missing.\<close>

definition path_metadata :: "'c bridge \<Rightarrow> inbound_event \<Rightarrow> 'c puppet_entry option" where
  "path_metadata B ev = (case origin_metadata ev of None \<Rightarrow> None | Some i \<Rightarrow> lookup (puppets B) i)"

text \<open>Modelled from the spec: path 2 of section 4.3, the puppet of the raw sender; the
  Relay Router's code is missing.\<close>

definition path_sender :: "'c bridge \<Rightarrow> inbound_event \<Rightarrow> 'c puppet_entry option" where
  "path_sender B ev = lookup (puppets B) (sender_identity ev)"

text \<open>Modelled from the spec: the ordered chain of section 9, each path returning found
  or not-found, combined left to right; the Relay Router's code is missing.\<close>

fun first_applicable :: "('a \<Rightarrow> 'b option) list \<Rightarrow> 'a \<Rightarrow> 'b option" where
  "first_applicable [] x = None"
| "first_applicable (f # fs) x = (case f x of Some y \<Rightarrow> Some y | None \<Rightarrow> first_applicable fs x)"

text \<open>Modelled from the spec: \<^verbatim>\<open>resolveOutboundIdentity(event) -> (credential, destination_identity)\<close>
  of section 4.3, with path 3 the configured relay credential; the Relay Router's code
  is missing.\<close>

definition resolveOutboundIdentity :: "'c bridge \<Rightarrow> inbound_event \<Rightarrow> 'c \<times> identity" where
  "resolveOutboundIdentity B ev =
     (case first_applicable [path_metadata B, path_sender B] ev of
        Some p \<Rightarrow> (destination_credential p, destination_identity p)
      | None \<Rightarrow> (relay_credential B, relay_identity B))"

text \<open>Modelled from the spec: the payload that is posted. Path 3 of section 4.3 prefixes
  the message with the origin identity; section 8 gives the form (\<^verbatim>\<open>unknown: hey\<close>).
  The Relay Router's code is missing.\<close>

definition outbound_payload :: "'c bridge \<Rightarrow> inbound_event \<Rightarrow> string" where
  "outbound_payload B ev =
     (case first_applicable [path_metadata B, path_sender B] ev of
        Some p \<Rightarrow> payload ev
      | None \<Rightarrow> sender_identity ev @ '': '' @ payload ev)"

text \<open>Modelled from the spec: \<^verbatim>\<open>relay(event) -> destination_event_id\<close> of section 4.3:
  resolve the identity, format the payload, post through the destination API and, on
  success, insert a Relay Record; a failure is reported to the caller. The Relay Router's
  code is missing.\<close>

definition relay :: "'c destination_api \<Rightarrow> 'c bridge \<Rightarrow> inbound_event \<Rightarrow> (api_error + string) \<times> 'c bridge" where
  "relay send_as B ev =
     (let (credential, dest) = resolveOutboundIdentity B ev;
          B1 = B\<lparr>relay_calls := relay_calls B @ [ev]\<rparr>
      in case send_as credential (channel_id ev) (outbound_payload B ev) of
           Inl err \<Rightarrow> (Inl err, B1)
         | Inr post_id \<Rightarrow>
             (Inr post_id,
              B1\<lparr>relay_records := \<lparr>source_event_id = event_id ev, destination_event_id = post_id,
                                     recorded_at = timestamp ev\<rparr> # relay_records B1\<rparr>))"

text \<open>Modelled from the spec: what the Ingestion Loop does with one event (section 4.4):
  it drops an echo, and otherwise relays it or reports the failure of the relay. The
  Ingestion Loop's code is missing.\<close>

datatype ingest_result = Dropped | Relayed string | Failed api_error

text \<open>Modelled from the spec: one step of the Ingestion Loop while streaming
  (section 4.4): the event goes through the Echo Guard and, if it is not an echo, to the
  Relay Router. The Ingestion Loop's code is missing.\<close>

definition ingest :: "'c destination_api \<Rightarrow> 'c bridge \<Rightarrow> inbound_event \<Rightarrow> ingest_result \<times> 'c bridge" where
  "ingest send_as B ev =
     (if isEcho B ev then (Dropped, B)
      else (case relay send_as B ev of
              (Inl err, B') \<Rightarrow> (Failed err, B')
            | (Inr post_id, B') \<Rightarrow> (Relayed post_id, B')))"

text \<open>Modelled from the spec: the events of one room, handled one after the other in
  arrival order (section 4.4). The Ingestion Loop's code is missing.\<close>

fun ingest_all :: "'c destination_api \<Rightarrow> 'c bridge \<Rightarrow> inbound_event list \<Rightarrow> 'c bridge" where
  "ingest_all send_as B [] = B"
| "ingest_all send_as B (ev # evs) = ingest_all send_as (snd (ingest send_as B ev)) evs"

text \<open>The scenario of the specification's section 8: identity \<^verbatim>\<open>u1\<close> has the puppet
  with credential \<^verbatim>\<open>c1\<close> and destination \<^verbatim>\<open>d1\<close>. The destination API below accepts
  every post and answers with the credential and the payload it was given.\<close>

definition spec_bridge :: "string bridge" where
  "spec_bridge =
     \<lparr>puppets = [\<lparr>source_identity = ''u1'', destination_identity = ''d1'',
                   destination_credential = ''c1'', created_at = 0\<rparr>],
      bot_identity = ''bridge-bot'', relay_credential = ''c-relay'', relay_identity = ''relay'',
      record_matches = (\<lambda>r ev. destination_event_id r = event_id ev),
      relay_records = [], relay_calls = []\<rparr>"

definition spec_event :: "identity \<Rightarrow> string \<Rightarrow> inbound_event" where
  "spec_event who body =
     \<lparr>protocol_origin = ''matrix'', sender_identity = who, channel_id = ''town-square'',
      payload = body, event_id = ''$1'', timestamp = 0, origin_metadata = None,
      relayed_marker = False\<rparr>"

definition posting_api :: "string destination_api" where
  "posting_api credential channel body = Inr (credential @ ''|'' @ body)"

section \<open>Properties of the sender\<close>

subsection \<open>What a call leaves unchanged\<close>

lemma http_log_ext: "http E r s = (out, s') \<Longrightarrow>
   s' = s\<lparr>http_log := http_log s @ [(r, out)]\<rparr> \<and> out = server E (http_log s) r"
  by (auto simp: http_def Let_def)

lemma register_agent_registered:
  "agent_name \<in> registered s \<Longrightarrow> register_agent E agent_name d s = (Inr (), s)"
  by (simp add: register_agent_def)

lemma register_agent_success:
  "register_agent E a d s = (Inr u, s') \<Longrightarrow> a \<in> registered s'"
  by (auto simp: register_agent_def http_def Let_def split: if_splits outcome.splits sum.splits prod.splits)

lemma get_admin_token_frame:
  "get_admin_token E s = (res, s') \<Longrightarrow>
     registered s' = registered s \<and> joined s' = joined s \<and> room_cache s' = room_cache s
     \<and> (\<exists>l. http_log s' = http_log s @ l)"
  by (auto simp: get_admin_token_def http_def Let_def split: if_splits outcome.splits sum.splits prod.splits option.splits)

lemma register_agent_frame:
  "register_agent E a d s = (res, s') \<Longrightarrow>
     registered s \<subseteq> registered s' \<and> joined s' = joined s \<and> room_cache s' = room_cache s
     \<and> (\<exists>l. http_log s' = http_log s @ l)"
  by (auto simp: register_agent_def http_def Let_def split: if_splits outcome.splits sum.splits prod.splits)

lemma find_portal_room_frame:
  "find_portal_room E c s = (res, s') \<Longrightarrow>
     registered s' = registered s \<and> joined s' = joined s \<and> room_cache s \<subseteq>\<^sub>m room_cache s'
     \<and> (\<exists>l. http_log s' = http_log s @ l)"
  apply (simp add: find_portal_room_def split: option.splits prod.splits sum.splits outcome.splits if_splits)
  apply (auto dest!: get_admin_token_frame http_log_ext simp: map_le_def)
  done

lemma ensure_joined_frame:
  "ensure_joined E a r s = (res, s') \<Longrightarrow>
     registered s' = registered s \<and> joined s \<subseteq> joined s' \<and> room_cache s' = room_cache s
     \<and> (\<exists>l. http_log s' = http_log s @ l)"
  by (auto simp: ensure_joined_def http_def Let_def split: if_splits outcome.splits sum.splits prod.splits)

lemma send_message_frame:
  "send_message E a r m s = (res, s') \<Longrightarrow>
     registered s \<subseteq> registered s' \<and> joined s \<subseteq> joined s' \<and> room_cache s' = room_cache s
     \<and> (\<exists>l. http_log s' = http_log s @ l)"
  apply (simp add: send_message_def split: option.splits prod.splits sum.splits outcome.splits if_splits)
  apply (auto dest!: register_agent_frame ensure_joined_frame http_log_ext)
  done

lemma grows_refl: "grows s s"
  by (simp add: grows_def)

lemma grows_trans: "grows s s' \<Longrightarrow> grows s' s'' \<Longrightarrow> grows s s''"
  unfolding grows_def by (auto intro: map_le_trans)

lemma exec_call_grows: "grows s (exec_call E c s)"
proof (cases c)
  case (CallRegisterAgent a d)
  then show ?thesis
    using register_agent_frame [of E a d s] by (cases "register_agent E a d s") (auto simp: grows_def)
next
  case (CallFindPortalRoom ch)
  then show ?thesis
    using find_portal_room_frame [of E ch s] by (cases "find_portal_room E ch s") (auto simp: grows_def)
next
  case (CallEnsureJoined a r)
  then show ?thesis
    using ensure_joined_frame [of E a r s] by (cases "ensure_joined E a r s") (auto simp: grows_def)
next
  case (CallSendMessage a r m)
  then show ?thesis
    using send_message_frame [of E a r m s] by (cases "send_message E a r m s") (auto simp: grows_def)
qed

lemma exec_calls_grows: "grows s (exec_calls E cs s)"
proof (induction cs arbitrary: s)
  case Nil
  show ?case by (simp add: grows_refl)
next
  case (Cons c cs)
  show ?case using exec_call_grows [of s E c] Cons [of "exec_call E c s"]
    by (auto intro: grows_trans)
qed

subsection \<open>Registration\<close>

lemma check_register_runtime:
  "(\<exists>msg. check_register l r = Inl (RuntimeError msg)) \<longleftrightarrow>
     (status_code r = 400 \<and> (\<exists>kv. resp_json r = Some (JObj kv) \<and> map_of kv ''errcode'' \<noteq> Some (JStr ''M_USER_IN_USE'')))"
proof (cases "resp_json r")
  case None
  then show ?thesis by (simp add: check_register_def)
next
  case (Some j)
  then show ?thesis
    by (cases j) (auto simp: check_register_def split: option.splits)
qed

lemma check_register_in_use:
  assumes "status_code r = 400" and "resp_json r = Some (JObj kv)"
    and "map_of kv ''errcode'' = Some (JStr ''M_USER_IN_USE'')"
  shows "check_register l r = Inr ()"
  using assms by (simp add: check_register_def)

lemma register_agent_runtime:
  "(\<exists>msg. fst (register_agent E a d s) = Inl (RuntimeError msg)) \<longleftrightarrow>
     (a \<notin> registered s \<and>
      (\<exists>r kv. server E (http_log s) (Register (''agent-'' @ a)) = Answer r \<and> status_code r = 400
         \<and> resp_json r = Some (JObj kv) \<and> map_of kv ''errcode'' \<noteq> Some (JStr ''M_USER_IN_USE'')))"
proof (cases "a \<in> registered s")
  case True
  then show ?thesis by (simp add: register_agent_def)
next
  case False
  show ?thesis
  proof (cases "server E (http_log s) (Register (''agent-'' @ a))")
    case NetworkError
    with False show ?thesis by (simp add: register_agent_def http_def)
  next
    case (Answer r)
    have "(\<exists>msg. fst (register_agent E a d s) = Inl (RuntimeError msg))
            \<longleftrightarrow> (\<exists>msg. check_register (''agent-'' @ a) r = Inl (RuntimeError msg))"
      using False Answer
      by (auto simp: register_agent_def http_def Let_def split: sum.splits outcome.splits)
    then show ?thesis using False Answer check_register_runtime [of "''agent-'' @ a" r] by simp
  qed
qed

lemma register_agent_in_use:
  assumes "a \<notin> registered s"
    and "server E (http_log s) (Register (''agent-'' @ a)) = Answer r"
    and "status_code r = 400" and "resp_json r = Some (JObj kv)"
    and "map_of kv ''errcode'' = Some (JStr ''M_USER_IN_USE'')"
    and "server E (http_log s @ [(Register (''agent-'' @ a), Answer r)]) (PutDisplayName (mxid E a) d) = Answer r2"
  shows "register_agent E a d s =
     (Inr (), s\<lparr>http_log := http_log s @ [(Register (''agent-'' @ a), Answer r), (PutDisplayName (mxid E a) d, Answer r2)],
               registered := insert a (registered s)\<rparr>)"
  using assms by (simp add: register_agent_def http_def check_register_def Let_def)

lemma register_agent_later:
  assumes "register_agent E a d s = (Inr (), s')"
  shows "register_agent E a d' (exec_calls E cs s') = (Inr (), exec_calls E cs s')"
proof -
  have "a \<in> registered s'" using assms by (rule register_agent_success)
  moreover have "registered s' \<subseteq> registered (exec_calls E cs s')"
    using exec_calls_grows [of s' E cs] by (simp add: grows_def)
  ultimately show ?thesis by (auto intro: register_agent_registered)
qed

text \<open>
  Claim C8. \<^verbatim>\<open>register_agent\<close> is idempotent and tolerates an earlier registration.
  \<^item> After a call for a name has returned, every later call for that name, after any
    calls of the sender's methods in between and with any display name, returns at once:
    the state it leaves is the state it found, so no request was made.
  \<^item> An answer with status 400 and a body whose \<^verbatim>\<open>errcode\<close> is \<^verbatim>\<open>M_USER_IN_USE\<close>
    passes the check of the registration response, as an answer with status 200 does.
  \<^item> When the name is not registered yet, the registration is answered in that way and
    the display name request is answered, the call returns, has made exactly these two
    requests and has recorded the name.
  \<^item> The call raises \<^verbatim>\<open>RuntimeError\<close> exactly when it makes the registration request
    and the answer has status 400 and a JSON object as its body whose \<^verbatim>\<open>errcode\<close> is
    anything but \<^verbatim>\<open>M_USER_IN_USE\<close> (a missing \<^verbatim>\<open>errcode\<close> reads as \<^verbatim>\<open>None\<close>
    and counts as another one).
\<close>

theorem register_agent_idempotent_and_tolerant:
  "(register_agent E a d s = (Inr (), s') \<longrightarrow>
      (\<forall>cs d'. register_agent E a d' (exec_calls E cs s') = (Inr (), exec_calls E cs s')))
   \<and> (status_code r = 400 \<and> resp_json r = Some (JObj kv)
        \<and> map_of kv ''errcode'' = Some (JStr ''M_USER_IN_USE'')
      \<longrightarrow> check_register (''agent-'' @ a) r = Inr ())
   \<and> (a \<notin> registered s
        \<and> server E (http_log s) (Register (''agent-'' @ a)) = Answer r
        \<and> status_code r = 400 \<and> resp_json r = Some (JObj kv)
        \<and> map_of kv ''errcode'' = Some (JStr ''M_USER_IN_USE'')
        \<and> server E (http_log s @ [(Register (''agent-'' @ a), Answer r)])
             (PutDisplayName (mxid E a) d) = Answer r2
      \<longrightarrow> register_agent E a d s =
            (Inr (), s\<lparr>http_log := http_log s @ [(Register (''agent-'' @ a), Answer r),
                                                  (PutDisplayName (mxid E a) d, Answer r2)],
                      registered := insert a (registered s)\<rparr>))
   \<and> ((\<exists>msg. fst (register_agent E a d s) = Inl (RuntimeError msg)) \<longleftrightarrow>
        (a \<notin> registered s \<and>
         (\<exists>r kv. server E (http_log s) (Register (''agent-'' @ a)) = Answer r
            \<and> status_code r = 400 \<and> resp_json r = Some (JObj kv)
            \<and> map_of kv ''errcode'' \<noteq> Some (JStr ''M_USER_IN_USE''))))"
proof (intro conjI impI allI)
  fix cs d'
  assume "register_agent E a d s = (Inr (), s')"
  then show "register_agent E a d' (exec_calls E cs s') = (Inr (), exec_calls E cs s')"
    by (rule register_agent_later)
next
  assume "status_code r = 400 \<and> resp_json r = Some (JObj kv)
        \<and> map_of kv ''errcode'' = Some (JStr ''M_USER_IN_USE'')"
  then show "check_register (''agent-'' @ a) r = Inr ()"
    using check_register_in_use [of r kv "''agent-'' @ a"] by blast
next
  assume "a \<notin> registered s
        \<and> server E (http_log s) (Register (''agent-'' @ a)) = Answer r
        \<and> status_code r = 400 \<and> resp_json r = Some (JObj kv)
        \<and> map_of kv ''errcode'' = Some (JStr ''M_USER_IN_USE'')
        \<and> server E (http_log s @ [(Register (''agent-'' @ a), Answer r)])
             (PutDisplayName (mxid E a) d) = Answer r2"
  then show "register_agent E a d s =
            (Inr (), s\<lparr>http_log := http_log s @ [(Register (''agent-'' @ a), Answer r),
                                                  (PutDisplayName (mxid E a) d, Answer r2)],
                      registered := insert a (registered s)\<rparr>)"
    using register_agent_in_use [of a s E r kv d r2] by blast
next
  show "(\<exists>msg. fst (register_agent E a d s) = Inl (RuntimeError msg)) \<longleftrightarrow>
        (a \<notin> registered s \<and>
         (\<exists>r kv. server E (http_log s) (Register (''agent-'' @ a)) = Answer r
            \<and> status_code r = 400 \<and> resp_json r = Some (JObj kv)
            \<and> map_of kv ''errcode'' \<noteq> Some (JStr ''M_USER_IN_USE'')))"
    by (rule register_agent_runtime)
qed

text \<open>
  Against the first server the registration of \<^verbatim>\<open>coder\<close> is answered with
  \<^verbatim>\<open>M_USER_IN_USE\<close> and succeeds, and a later call changes nothing; against the second
  it is answered with another \<^verbatim>\<open>errcode\<close> and raises \<^verbatim>\<open>RuntimeError\<close>.
\<close>

theorem register_agent_idempotent_and_tolerant_witness:
  "register_agent (demo_env synapse_ready) ''coder'' ''Coder'' init_sender = (Inr (), coder_registered)
   \<and> check_register ''agent-coder'' (error_response 400 ''M_USER_IN_USE'') = Inr ()
   \<and> register_agent (demo_env synapse_ready) ''coder'' ''Again''
        (exec_calls (demo_env synapse_ready) [CallEnsureJoined ''coder'' ''!town:localhost''] coder_registered)
      = (Inr (), exec_calls (demo_env synapse_ready) [CallEnsureJoined ''coder'' ''!town:localhost''] coder_registered)
   \<and> (\<exists>msg. fst (register_agent (demo_env synapse_refusing) ''coder'' ''Coder'' init_sender)
               = Inl (RuntimeError msg))"
proof -
  have first: "register_agent (demo_env synapse_ready) ''coder'' ''Coder'' init_sender
                 = (Inr (), coder_registered)"
    using register_agent_idempotent_and_tolerant [where E = "demo_env synapse_ready" and a = "''coder''"
        and d = "''Coder''" and s = init_sender and r = "error_response 400 ''M_USER_IN_USE''"
        and kv = "[(''errcode'', JStr ''M_USER_IN_USE'')]" and ?r2.0 = "ok_response (JObj [])"]
    by (simp add: demo_env_def synapse_ready_def ok_response_def error_response_def
        init_sender_def mxid_def coder_registered_def)
  have passes: "check_register ''agent-coder'' (error_response 400 ''M_USER_IN_USE'') = Inr ()"
    using register_agent_idempotent_and_tolerant [where a = "''coder''"
        and r = "error_response 400 ''M_USER_IN_USE''"
        and kv = "[(''errcode'', JStr ''M_USER_IN_USE'')]"]
    by (simp add: error_response_def)
  have later: "register_agent (demo_env synapse_ready) ''coder'' ''Again''
        (exec_calls (demo_env synapse_ready) [CallEnsureJoined ''coder'' ''!town:localhost''] coder_registered)
      = (Inr (), exec_calls (demo_env synapse_ready) [CallEnsureJoined ''coder'' ''!town:localhost''] coder_registered)"
    using register_agent_idempotent_and_tolerant [where E = "demo_env synapse_ready" and a = "''coder''"
        and d = "''Coder''" and s = init_sender and s' = coder_registered] first
    by blast
  have refused: "\<exists>msg. fst (register_agent (demo_env synapse_refusing) ''coder'' ''Coder'' init_sender)
               = Inl (RuntimeError msg)"
    using register_agent_idempotent_and_tolerant [where E = "demo_env synapse_refusing" and a = "''coder''"
        and d = "''Coder''" and s = init_sender]
    by (simp add: demo_env_def synapse_refusing_def error_response_def init_sender_def)
  from first passes later refused show ?thesis by blast
qed

subsection \<open>Joining\<close>

lemma join_ok_iff:
  "join_ok E a r log \<longleftrightarrow> (\<exists>resp. (Join r (mxid E a), Answer resp) \<in> set log \<and> status_code resp = 200)"
proof
  assume "join_ok E a r log"
  then obtain x where x: "x \<in> set log"
    "(case x of (Join r' m, Answer resp) \<Rightarrow> r' = r \<and> m = mxid E a \<and> status_code resp = 200 | _ \<Rightarrow> False)"
    by (auto simp: join_ok_def list_ex_iff)
  obtain q out where xq: "x = (q, out)" by (cases x)
  from x(2) xq show "\<exists>resp. (Join r (mxid E a), Answer resp) \<in> set log \<and> status_code resp = 200"
    using x(1) by (cases q; cases out) auto
next
  assume "\<exists>resp. (Join r (mxid E a), Answer resp) \<in> set log \<and> status_code resp = 200"
  then show "join_ok E a r log"
    by (force simp: join_ok_def list_ex_iff)
qed

lemma join_ok_append: "join_ok E a r l \<Longrightarrow> join_ok E a r (l @ l')"
  by (auto simp: join_ok_iff)

lemma joined_inv_frame:
  "joined_inv E s \<Longrightarrow> joined s' = joined s \<Longrightarrow> http_log s' = http_log s @ l \<Longrightarrow> joined_inv E s'"
  by (auto simp: joined_inv_def intro: join_ok_append)

lemma ensure_joined_cases:
  assumes "ensure_joined E a r s = (res, s')"
  shows "\<exists>l. http_log s' = http_log s @ l \<and>
           (joined s' = joined s \<or>
            (joined s' = insert (a, r) (joined s) \<and> join_ok E a r l))"
  using assms
  by (auto simp: join_ok_iff ensure_joined_def http_def Let_def split: if_splits outcome.splits)

lemma ensure_joined_inv:
  assumes "joined_inv E s" and "ensure_joined E a r s = (res, s')"
  shows "joined_inv E s'"
proof -
  from ensure_joined_cases [OF assms(2)] obtain l where l: "http_log s' = http_log s @ l"
    and c: "joined s' = joined s \<or> (joined s' = insert (a, r) (joined s) \<and> join_ok E a r l)"
    by blast
  from c show ?thesis
  proof
    assume "joined s' = joined s"
    with assms(1) l show ?thesis by (blast intro: joined_inv_frame)
  next
    assume "joined s' = insert (a, r) (joined s) \<and> join_ok E a r l"
    then show ?thesis using assms(1) l
      by (auto simp: joined_inv_def join_ok_iff)
  qed
qed

lemma register_agent_inv:
  assumes "joined_inv E s" and "register_agent E a d s = (res, s')"
  shows "joined_inv E s'"
  using register_agent_frame [OF assms(2)] assms(1) by (auto intro: joined_inv_frame)

lemma find_portal_room_inv:
  assumes "joined_inv E s" and "find_portal_room E c s = (res, s')"
  shows "joined_inv E s'"
  using find_portal_room_frame [OF assms(2)] assms(1) by (auto intro: joined_inv_frame)

lemma send_message_inv:
  assumes "joined_inv E s" and "send_message E a r m s = (res, s')"
  shows "joined_inv E s'"
proof -
  obtain r1 s1 where 1: "register_agent E a (str_title E a) s = (r1, s1)" by force
  obtain r2 s2 where 2: "ensure_joined E a r s1 = (r2, s2)" by force
  have i1: "joined_inv E s1" using assms(1) 1 by (rule register_agent_inv)
  have i2: "joined_inv E s2" using i1 2 by (rule ensure_joined_inv)
  have "s' = s1 \<or> s' = s2 \<or> (\<exists>l. joined s' = joined s2 \<and> http_log s' = http_log s2 @ l)"
    using assms(2) 1 2
    by (auto simp: send_message_def http_def Let_def split: sum.splits outcome.splits if_splits option.splits)
  then show ?thesis using i1 i2 by (auto intro: joined_inv_frame)
qed

lemma exec_call_inv: "joined_inv E s \<Longrightarrow> joined_inv E (exec_call E c s)"
proof (cases c)
  case (CallRegisterAgent a d)
  assume "joined_inv E s"
  then show ?thesis using CallRegisterAgent register_agent_inv [of E s a d]
    by (cases "register_agent E a d s") auto
next
  case (CallFindPortalRoom ch)
  assume "joined_inv E s"
  then show ?thesis using CallFindPortalRoom find_portal_room_inv [of E s ch]
    by (cases "find_portal_room E ch s") auto
next
  case (CallEnsureJoined a r)
  assume "joined_inv E s"
  then show ?thesis using CallEnsureJoined ensure_joined_inv [of E s a r]
    by (cases "ensure_joined E a r s") auto
next
  case (CallSendMessage a r m)
  assume "joined_inv E s"
  then show ?thesis using CallSendMessage send_message_inv [of E s a r m]
    by (cases "send_message E a r m s") auto
qed

lemma exec_calls_inv: "joined_inv E s \<Longrightarrow> joined_inv E (exec_calls E cs s)"
  by (induction cs arbitrary: s) (auto intro: exec_call_inv)

lemma joined_inv_init: "joined_inv E init_sender"
  by (simp add: joined_inv_def init_sender_def)

lemma ensure_joined_failure:
  assumes "(a, r) \<notin> joined s"
    and "server E (http_log s) (Join r (mxid E a)) = Answer r1"
    and "status_code r1 \<noteq> 200"
    and "server E (http_log s @ [(Join r (mxid E a), Answer r1)]) (Invite r (mxid E a)) = Answer ri"
    and "server E (http_log s @ [(Join r (mxid E a), Answer r1), (Invite r (mxid E a), Answer ri)])
           (Join r (mxid E a)) = Answer r2"
    and "status_code r2 \<noteq> 200"
  shows "ensure_joined E a r s =
     (Inr (), s\<lparr>http_log := http_log s @ [(Join r (mxid E a), Answer r1),
                  (Invite r (mxid E a), Answer ri), (Join r (mxid E a), Answer r2)]\<rparr>)"
  using assms by (simp add: ensure_joined_def http_def Let_def)

lemma ensure_joined_retries:
  assumes "(a, r) \<notin> joined s"
  shows "\<exists>out rest. http_log (snd (ensure_joined E a r s)) = http_log s @ (Join r (mxid E a), out) # rest"
  using assms by (auto simp: ensure_joined_def http_def Let_def split: outcome.splits)

lemma ensure_joined_raises_only_httpx:
  "fst (ensure_joined E a r s) = Inr ()
   \<or> (fst (ensure_joined E a r s) = Inl HTTPError
      \<and> (\<exists>l q. http_log (snd (ensure_joined E a r s)) = http_log s @ l @ [(q, NetworkError)]))"
proof (cases "(a, r) \<in> joined s")
  case True
  then show ?thesis by (simp add: ensure_joined_def)
next
  case False
  let ?J = "Join r (mxid E a)" and ?I = "Invite r (mxid E a)"
  show ?thesis
  proof (cases "server E (http_log s) ?J")
    case NetworkError
    with False have "fst (ensure_joined E a r s) = Inl HTTPError"
      "http_log (snd (ensure_joined E a r s)) = http_log s @ [] @ [(?J, NetworkError)]"
      by (simp_all add: ensure_joined_def http_def Let_def)
    then show ?thesis by blast
  next
    case j1: (Answer r1)
    show ?thesis
    proof (cases "status_code r1 = 200")
      case True
      with False j1 show ?thesis by (simp add: ensure_joined_def http_def Let_def)
    next
      case no: False
      show ?thesis
      proof (cases "server E (http_log s @ [(?J, Answer r1)]) ?I")
        case NetworkError
        with False j1 no have "fst (ensure_joined E a r s) = Inl HTTPError"
          "http_log (snd (ensure_joined E a r s)) = http_log s @ [(?J, Answer r1)] @ [(?I, NetworkError)]"
          by (simp_all add: ensure_joined_def http_def Let_def)
        then show ?thesis by blast
      next
        case i: (Answer ri)
        show ?thesis
        proof (cases "server E (http_log s @ [(?J, Answer r1), (?I, Answer ri)]) ?J")
          case NetworkError
          with False j1 no i have "fst (ensure_joined E a r s) = Inl HTTPError"
            "http_log (snd (ensure_joined E a r s))
               = http_log s @ [(?J, Answer r1), (?I, Answer ri)] @ [(?J, NetworkError)]"
            by (simp_all add: ensure_joined_def http_def Let_def)
          then show ?thesis by blast
        next
          case (Answer r2)
          with False j1 no i show ?thesis by (simp add: ensure_joined_def http_def Let_def)
        qed
      qed
    qed
  qed
qed

lemma ensure_joined_unchanged:
  assumes "(a, r) \<notin> joined (snd (ensure_joined E a r s))"
  shows "joined (snd (ensure_joined E a r s)) = joined s"
proof -
  obtain res s' where e: "ensure_joined E a r s = (res, s')" by force
  from ensure_joined_cases [OF e] assms e show ?thesis by auto
qed

lemma ensure_joined_already:
  "(a, r) \<in> joined s \<Longrightarrow> ensure_joined E a r s = (Inr (), s)"
  by (simp add: ensure_joined_def)

lemma ensure_joined_direct:
  assumes "(a, r) \<notin> joined s"
    and "server E (http_log s) (Join r (mxid E a)) = Answer r1" and "status_code r1 = 200"
  shows "ensure_joined E a r s =
     (Inr (), s\<lparr>http_log := http_log s @ [(Join r (mxid E a), Answer r1)],
               joined := insert (a, r) (joined s)\<rparr>)"
  using assms by (simp add: ensure_joined_def http_def Let_def)

lemma ensure_joined_after_invite:
  assumes "(a, r) \<notin> joined s"
    and "server E (http_log s) (Join r (mxid E a)) = Answer r1" and "status_code r1 \<noteq> 200"
    and "server E (http_log s @ [(Join r (mxid E a), Answer r1)]) (Invite r (mxid E a)) = Answer ri"
    and "server E (http_log s @ [(Join r (mxid E a), Answer r1), (Invite r (mxid E a), Answer ri)])
           (Join r (mxid E a)) = Answer r2"
    and "status_code r2 = 200"
  shows "ensure_joined E a r s =
     (Inr (), s\<lparr>http_log := http_log s @ [(Join r (mxid E a), Answer r1),
                  (Invite r (mxid E a), Answer ri), (Join r (mxid E a), Answer r2)],
               joined := insert (a, r) (joined s)\<rparr>)"
  using assms by (simp add: ensure_joined_def http_def Let_def)

lemma ensure_joined_join_raises:
  assumes "(a, r) \<notin> joined s"
    and "server E (http_log s) (Join r (mxid E a)) = NetworkError"
  shows "ensure_joined E a r s =
     (Inl HTTPError, s\<lparr>http_log := http_log s @ [(Join r (mxid E a), NetworkError)]\<rparr>)"
  using assms by (simp add: ensure_joined_def http_def Let_def)

lemma ensure_joined_invite_raises:
  assumes "(a, r) \<notin> joined s"
    and "server E (http_log s) (Join r (mxid E a)) = Answer r1" and "status_code r1 \<noteq> 200"
    and "server E (http_log s @ [(Join r (mxid E a), Answer r1)]) (Invite r (mxid E a)) = NetworkError"
  shows "ensure_joined E a r s =
     (Inl HTTPError, s\<lparr>http_log := http_log s @ [(Join r (mxid E a), Answer r1),
                  (Invite r (mxid E a), NetworkError)]\<rparr>)"
  using assms by (simp add: ensure_joined_def http_def Let_def)

lemma ensure_joined_rejoin_raises:
  assumes "(a, r) \<notin> joined s"
    and "server E (http_log s) (Join r (mxid E a)) = Answer r1" and "status_code r1 \<noteq> 200"
    and "server E (http_log s @ [(Join r (mxid E a), Answer r1)]) (Invite r (mxid E a)) = Answer ri"
    and "server E (http_log s @ [(Join r (mxid E a), Answer r1), (Invite r (mxid E a), Answer ri)])
           (Join r (mxid E a)) = NetworkError"
  shows "ensure_joined E a r s =
     (Inl HTTPError, s\<lparr>http_log := http_log s @ [(Join r (mxid E a), Answer r1),
                  (Invite r (mxid E a), Answer ri), (Join r (mxid E a), NetworkError)]\<rparr>)"
  using assms by (simp add: ensure_joined_def http_def Let_def)

text \<open>
  Claim C10, as amended. \<^verbatim>\<open>ensure_joined\<close> keeps \<^verbatim>\<open>_joined\<close> honest.
  \<^item> After any run of the sender's methods from its initial state, every pair of an agent
    and a room in \<^verbatim>\<open>_joined\<close> has a join request of that agent's MXID for that room in
    the log that was answered with status 200.
  \<^item> When the pair is not in \<^verbatim>\<open>_joined\<close>, the join is answered with a status other than
    200, the invite is answered and the second join is answered with a status other than
    200, the call returns without raising and only the log has changed.
  \<^item> The call raises nothing of its own: it returns, or a request of the call has raised
    inside httpx and that exception is what the call raises.
  \<^item> Whenever the pair is not in \<^verbatim>\<open>_joined\<close> after the call, whether the call has
    returned or raised, \<^verbatim>\<open>_joined\<close> is as it was before.
  \<^item> Whenever the pair is not in \<^verbatim>\<open>_joined\<close>, as after such a failure, the call begins
    with a join request for the pair: it retries instead of skipping.
  \<^item> When the pair is not in \<^verbatim>\<open>_joined\<close> and a request of the call raises inside
    httpx, be it the join, the invite after a join answered with a status other than 200,
    or the second join after an answered invite, the call raises that exception, makes no
    further request and only the log has changed: \<^verbatim>\<open>_joined\<close> is as it was.
  \<^item> When the pair is not in \<^verbatim>\<open>_joined\<close> and the join is answered with status 200,
    directly or after an answered invite, the call returns and has added exactly that
    pair; when the pair is in \<^verbatim>\<open>_joined\<close> already, the call returns at once and
    changes nothing.
  The second part and the last two cover every behaviour of the server, and give the
  result and the state of the call for each.
\<close>

theorem ensure_joined_only_after_200:
  "(\<forall>(agent, room) \<in> joined (exec_calls E cs init_sender).
       join_ok E agent room (http_log (exec_calls E cs init_sender)))
   \<and> ((a, r) \<notin> joined s
        \<and> server E (http_log s) (Join r (mxid E a)) = Answer r1 \<and> status_code r1 \<noteq> 200
        \<and> server E (http_log s @ [(Join r (mxid E a), Answer r1)]) (Invite r (mxid E a)) = Answer ri
        \<and> server E (http_log s @ [(Join r (mxid E a), Answer r1), (Invite r (mxid E a), Answer ri)])
             (Join r (mxid E a)) = Answer r2
        \<and> status_code r2 \<noteq> 200
      \<longrightarrow> ensure_joined E a r s =
            (Inr (), s\<lparr>http_log := http_log s @ [(Join r (mxid E a), Answer r1),
                         (Invite r (mxid E a), Answer ri), (Join r (mxid E a), Answer r2)]\<rparr>))
   \<and> (fst (ensure_joined E a r s) = Inr ()
        \<or> (fst (ensure_joined E a r s) = Inl HTTPError
           \<and> (\<exists>l q. http_log (snd (ensure_joined E a r s)) = http_log s @ l @ [(q, NetworkError)])))
   \<and> ((a, r) \<notin> joined (snd (ensure_joined E a r s))
      \<longrightarrow> joined (snd (ensure_joined E a r s)) = joined s)
   \<and> ((a, r) \<notin> joined s \<longrightarrow>
        (\<exists>out rest. http_log (snd (ensure_joined E a r s))
                      = http_log s @ (Join r (mxid E a), out) # rest))
   \<and> ((a, r) \<notin> joined s
        \<and> server E (http_log s) (Join r (mxid E a)) = NetworkError
      \<longrightarrow> ensure_joined E a r s =
            (Inl HTTPError, s\<lparr>http_log := http_log s @ [(Join r (mxid E a), NetworkError)]\<rparr>))
   \<and> ((a, r) \<notin> joined s
        \<and> server E (http_log s) (Join r (mxid E a)) = Answer r1 \<and> status_code r1 \<noteq> 200
        \<and> server E (http_log s @ [(Join r (mxid E a), Answer r1)]) (Invite r (mxid E a)) = NetworkError
      \<longrightarrow> ensure_joined E a r s =
            (Inl HTTPError, s\<lparr>http_log := http_log s @ [(Join r (mxid E a), Answer r1),
                         (Invite r (mxid E a), NetworkError)]\<rparr>))
   \<and> ((a, r) \<notin> joined s
        \<and> server E (http_log s) (Join r (mxid E a)) = Answer r1 \<and> status_code r1 \<noteq> 200
        \<and> server E (http_log s @ [(Join r (mxid E a), Answer r1)]) (Invite r (mxid E a)) = Answer ri
        \<and> server E (http_log s @ [(Join r (mxid E a), Answer r1), (Invite r (mxid E a), Answer ri)])
             (Join r (mxid E a)) = NetworkError
      \<longrightarrow> ensure_joined E a r s =
            (Inl HTTPError, s\<lparr>http_log := http_log s @ [(Join r (mxid E a), Answer r1),
                         (Invite r (mxid E a), Answer ri), (Join r (mxid E a), NetworkError)]\<rparr>))
   \<and> ((a, r) \<notin> joined s
        \<and> server E (http_log s) (Join r (mxid E a)) = Answer r1 \<and> status_code r1 = 200
      \<longrightarrow> ensure_joined E a r s =
            (Inr (), s\<lparr>http_log := http_log s @ [(Join r (mxid E a), Answer r1)],
                      joined := insert (a, r) (joined s)\<rparr>))
   \<and> ((a, r) \<notin> joined s
        \<and> server E (http_log s) (Join r (mxid E a)) = Answer r1 \<and> status_code r1 \<noteq> 200
        \<and> server E (http_log s @ [(Join r (mxid E a), Answer r1)]) (Invite r (mxid E a)) = Answer ri
        \<and> server E (http_log s @ [(Join r (mxid E a), Answer r1), (Invite r (mxid E a), Answer ri)])
             (Join r (mxid E a)) = Answer r2
        \<and> status_code r2 = 200
      \<longrightarrow> ensure_joined E a r s =
            (Inr (), s\<lparr>http_log := http_log s @ [(Join r (mxid E a), Answer r1),
                         (Invite r (mxid E a), Answer ri), (Join r (mxid E a), Answer r2)],
                      joined := insert (a, r) (joined s)\<rparr>))
   \<and> ((a, r) \<in> joined s \<longrightarrow> ensure_joined E a r s = (Inr (), s))"
proof (intro conjI)
  have "joined_inv E (exec_calls E cs init_sender)"
    by (intro exec_calls_inv joined_inv_init)
  then show "\<forall>(agent, room) \<in> joined (exec_calls E cs init_sender).
       join_ok E agent room (http_log (exec_calls E cs init_sender))"
    by (simp add: joined_inv_def)
next
  show "(a, r) \<notin> joined s
        \<and> server E (http_log s) (Join r (mxid E a)) = Answer r1 \<and> status_code r1 \<noteq> 200
        \<and> server E (http_log s @ [(Join r (mxid E a), Answer r1)]) (Invite r (mxid E a)) = Answer ri
        \<and> server E (http_log s @ [(Join r (mxid E a), Answer r1), (Invite r (mxid E a), Answer ri)])
             (Join r (mxid E a)) = Answer r2
        \<and> status_code r2 \<noteq> 200
      \<longrightarrow> ensure_joined E a r s =
            (Inr (), s\<lparr>http_log := http_log s @ [(Join r (mxid E a), Answer r1),
                         (Invite r (mxid E a), Answer ri), (Join r (mxid E a), Answer r2)]\<rparr>)"
    using ensure_joined_failure [of a r s E r1 ri r2] by blast
next
  show "fst (ensure_joined E a r s) = Inr ()
        \<or> (fst (ensure_joined E a r s) = Inl HTTPError
           \<and> (\<exists>l q. http_log (snd (ensure_joined E a r s)) = http_log s @ l @ [(q, NetworkError)]))"
    by (rule ensure_joined_raises_only_httpx)
next
  show "(a, r) \<notin> joined (snd (ensure_joined E a r s))
      \<longrightarrow> joined (snd (ensure_joined E a r s)) = joined s"
    by (rule impI) (rule ensure_joined_unchanged)
next
  show "(a, r) \<notin> joined s \<longrightarrow>
        (\<exists>out rest. http_log (snd (ensure_joined E a r s))
                      = http_log s @ (Join r (mxid E a), out) # rest)"
    using ensure_joined_retries [of a r s E] by blast
next
  show "(a, r) \<notin> joined s
        \<and> server E (http_log s) (Join r (mxid E a)) = NetworkError
      \<longrightarrow> ensure_joined E a r s =
            (Inl HTTPError, s\<lparr>http_log := http_log s @ [(Join r (mxid E a), NetworkError)]\<rparr>)"
    using ensure_joined_join_raises [of a r s E] by blast
next
  show "(a, r) \<notin> joined s
        \<and> server E (http_log s) (Join r (mxid E a)) = Answer r1 \<and> status_code r1 \<noteq> 200
        \<and> server E (http_log s @ [(Join r (mxid E a), Answer r1)]) (Invite r (mxid E a)) = NetworkError
      \<longrightarrow> ensure_joined E a r s =
            (Inl HTTPError, s\<lparr>http_log := http_log s @ [(Join r (mxid E a), Answer r1),
                         (Invite r (mxid E a), NetworkError)]\<rparr>)"
    using ensure_joined_invite_raises [of a r s E r1] by blast
next
  show "(a, r) \<notin> joined s
        \<and> server E (http_log s) (Join r (mxid E a)) = Answer r1 \<and> status_code r1 \<noteq> 200
        \<and> server E (http_log s @ [(Join r (mxid E a), Answer r1)]) (Invite r (mxid E a)) = Answer ri
        \<and> server E (http_log s @ [(Join r (mxid E a), Answer r1), (Invite r (mxid E a), Answer ri)])
             (Join r (mxid E a)) = NetworkError
      \<longrightarrow> ensure_joined E a r s =
            (Inl HTTPError, s\<lparr>http_log := http_log s @ [(Join r (mxid E a), Answer r1),
                         (Invite r (mxid E a), Answer ri), (Join r (mxid E a), NetworkError)]\<rparr>)"
    using ensure_joined_rejoin_raises [of a r s E r1 ri] by blast
next
  show "(a, r) \<notin> joined s
        \<and> server E (http_log s) (Join r (mxid E a)) = Answer r1 \<and> status_code r1 = 200
      \<longrightarrow> ensure_joined E a r s =
            (Inr (), s\<lparr>http_log := http_log s @ [(Join r (mxid E a), Answer r1)],
                      joined := insert (a, r) (joined s)\<rparr>)"
    using ensure_joined_direct [of a r s E r1] by blast
next
  show "(a, r) \<notin> joined s
        \<and> server E (http_log s) (Join r (mxid E a)) = Answer r1 \<and> status_code r1 \<noteq> 200
        \<and> server E (http_log s @ [(Join r (mxid E a), Answer r1)]) (Invite r (mxid E a)) = Answer ri
        \<and> server E (http_log s @ [(Join r (mxid E a), Answer r1), (Invite r (mxid E a), Answer ri)])
             (Join r (mxid E a)) = Answer r2
        \<and> status_code r2 = 200
      \<longrightarrow> ensure_joined E a r s =
            (Inr (), s\<lparr>http_log := http_log s @ [(Join r (mxid E a), Answer r1),
                         (Invite r (mxid E a), Answer ri), (Join r (mxid E a), Answer r2)],
                      joined := insert (a, r) (joined s)\<rparr>)"
    using ensure_joined_after_invite [of a r s E r1 ri r2] by blast
next
  show "(a, r) \<in> joined s \<longrightarrow> ensure_joined E a r s = (Inr (), s)"
    using ensure_joined_already [of a r s E] by blast
qed

text \<open>
  The first server lets \<^verbatim>\<open>coder\<close> join, and the log shows the join answered with 200;
  a second call then changes nothing. The second answers both joins with 403: the call
  returns, \<^verbatim>\<open>_joined\<close> stays empty, and the next call sends the join again. Against
  the third the join raises, and against the invite-only room the invite or the second
  join raises: each time the call raises and \<^verbatim>\<open>_joined\<close> stays empty. When the
  invite and the second join are answered, \<^verbatim>\<open>coder\<close> has joined.
\<close>

theorem ensure_joined_only_after_200_witness:
  "(''coder'', ''!town:localhost'')
       \<in> joined (exec_calls (demo_env synapse_ready) [CallEnsureJoined ''coder'' ''!town:localhost''] init_sender)
   \<and> join_ok (demo_env synapse_ready) ''coder'' ''!town:localhost''
        (http_log (exec_calls (demo_env synapse_ready) [CallEnsureJoined ''coder'' ''!town:localhost''] init_sender))
   \<and> ensure_joined (demo_env synapse_refusing) ''coder'' ''!town:localhost'' init_sender =
        (Inr (), init_sender\<lparr>http_log :=
           [(Join ''!town:localhost'' ''@agent-coder:localhost'', Answer (error_response 403 ''M_FORBIDDEN'')),
            (Invite ''!town:localhost'' ''@agent-coder:localhost'', Answer (ok_response (JObj []))),
            (Join ''!town:localhost'' ''@agent-coder:localhost'', Answer (error_response 403 ''M_FORBIDDEN''))]\<rparr>)
   \<and> joined (snd (ensure_joined (demo_env synapse_refusing) ''coder'' ''!town:localhost'' init_sender))
        = joined init_sender
   \<and> (\<exists>out rest.
         http_log (snd (ensure_joined (demo_env synapse_refusing) ''coder'' ''!town:localhost''
                          (snd (ensure_joined (demo_env synapse_refusing) ''coder'' ''!town:localhost'' init_sender))))
         = http_log (snd (ensure_joined (demo_env synapse_refusing) ''coder'' ''!town:localhost'' init_sender))
             @ (Join ''!town:localhost'' ''@agent-coder:localhost'', out) # rest)
   \<and> ensure_joined (demo_env synapse_timing_out) ''coder'' ''!town:localhost'' init_sender =
        (Inl HTTPError, init_sender\<lparr>http_log :=
           [(Join ''!town:localhost'' ''@agent-coder:localhost'', NetworkError)]\<rparr>)
   \<and> ensure_joined (demo_env (synapse_invite_only NetworkError NetworkError))
          ''coder'' ''!town:localhost'' init_sender =
        (Inl HTTPError, init_sender\<lparr>http_log :=
           [(Join ''!town:localhost'' ''@agent-coder:localhost'', Answer (error_response 403 ''M_FORBIDDEN'')),
            (Invite ''!town:localhost'' ''@agent-coder:localhost'', NetworkError)]\<rparr>)
   \<and> ensure_joined (demo_env (synapse_invite_only (Answer (ok_response (JObj []))) NetworkError))
          ''coder'' ''!town:localhost'' init_sender =
        (Inl HTTPError, init_sender\<lparr>http_log :=
           [(Join ''!town:localhost'' ''@agent-coder:localhost'', Answer (error_response 403 ''M_FORBIDDEN'')),
            (Invite ''!town:localhost'' ''@agent-coder:localhost'', Answer (ok_response (JObj []))),
            (Join ''!town:localhost'' ''@agent-coder:localhost'', NetworkError)]\<rparr>)
   \<and> ensure_joined (demo_env synapse_ready) ''coder'' ''!town:localhost'' init_sender =
        (Inr (), init_sender\<lparr>http_log :=
           [(Join ''!town:localhost'' ''@agent-coder:localhost'', Answer (ok_response (JObj [])))],
           joined := {(''coder'', ''!town:localhost'')}\<rparr>)
   \<and> ensure_joined (demo_env (synapse_invite_only (Answer (ok_response (JObj [])))
                                  (Answer (ok_response (JObj [])))))
          ''coder'' ''!town:localhost'' init_sender =
        (Inr (), init_sender\<lparr>http_log :=
           [(Join ''!town:localhost'' ''@agent-coder:localhost'', Answer (error_response 403 ''M_FORBIDDEN'')),
            (Invite ''!town:localhost'' ''@agent-coder:localhost'', Answer (ok_response (JObj []))),
            (Join ''!town:localhost'' ''@agent-coder:localhost'', Answer (ok_response (JObj [])))],
           joined := {(''coder'', ''!town:localhost'')}\<rparr>)
   \<and> ensure_joined (demo_env synapse_ready) ''coder'' ''!town:localhost''
        (exec_calls (demo_env synapse_ready) [CallEnsureJoined ''coder'' ''!town:localhost''] init_sender)
      = (Inr (), exec_calls (demo_env synapse_ready) [CallEnsureJoined ''coder'' ''!town:localhost''] init_sender)"
proof -
  let ?E = "demo_env synapse_ready" and ?R = "demo_env synapse_refusing"
  let ?T = "demo_env synapse_timing_out"
  let ?I1 = "demo_env (synapse_invite_only NetworkError NetworkError)"
  let ?I2 = "demo_env (synapse_invite_only (Answer (ok_response (JObj []))) NetworkError)"
  let ?I3 = "demo_env (synapse_invite_only (Answer (ok_response (JObj [])))
                                           (Answer (ok_response (JObj []))))"
  let ?run = "exec_calls ?E [CallEnsureJoined ''coder'' ''!town:localhost''] init_sender"
  let ?refused = "error_response 403 ''M_FORBIDDEN''" and ?fine = "ok_response (JObj [])"
  have member: "(''coder'', ''!town:localhost'') \<in> joined ?run"
    by (simp add: ensure_joined_def http_def Let_def demo_env_def synapse_ready_def ok_response_def
        init_sender_def mxid_def)
  have ok: "join_ok ?E ''coder'' ''!town:localhost'' (http_log ?run)"
    using ensure_joined_only_after_200 [where E = ?E
        and cs = "[CallEnsureJoined ''coder'' ''!town:localhost'']", THEN conjunct1] member
    by blast
  have failure: "ensure_joined ?R ''coder'' ''!town:localhost'' init_sender =
        (Inr (), init_sender\<lparr>http_log :=
           [(Join ''!town:localhost'' ''@agent-coder:localhost'', Answer ?refused),
            (Invite ''!town:localhost'' ''@agent-coder:localhost'', Answer ?fine),
            (Join ''!town:localhost'' ''@agent-coder:localhost'', Answer ?refused)]\<rparr>)"
    using ensure_joined_only_after_200 [where E = ?R and a = "''coder''" and r = "''!town:localhost''"
        and s = init_sender and ?r1.0 = ?refused and ri = ?fine and ?r2.0 = ?refused,
        THEN conjunct2, THEN conjunct1]
    by (simp add: demo_env_def synapse_refusing_def ok_response_def error_response_def
        init_sender_def mxid_def)
  have absent: "(''coder'', ''!town:localhost'')
          \<notin> joined (snd (ensure_joined ?R ''coder'' ''!town:localhost'' init_sender))"
    by (simp add: failure) (simp add: init_sender_def)
  have unchanged: "joined (snd (ensure_joined ?R ''coder'' ''!town:localhost'' init_sender))
        = joined init_sender"
    using ensure_joined_only_after_200 [where E = ?R and a = "''coder''" and r = "''!town:localhost''"
        and s = init_sender, THEN conjunct2, THEN conjunct2, THEN conjunct2, THEN conjunct1] absent
    by (rule mp)
  have again: "\<exists>out rest.
         http_log (snd (ensure_joined ?R ''coder'' ''!town:localhost''
                          (snd (ensure_joined ?R ''coder'' ''!town:localhost'' init_sender))))
         = http_log (snd (ensure_joined ?R ''coder'' ''!town:localhost'' init_sender))
             @ (Join ''!town:localhost'' ''@agent-coder:localhost'', out) # rest"
    using ensure_joined_only_after_200 [where E = ?R and a = "''coder''" and r = "''!town:localhost''"
        and s = "snd (ensure_joined ?R ''coder'' ''!town:localhost'' init_sender)",
        THEN conjunct2, THEN conjunct2, THEN conjunct2, THEN conjunct2, THEN conjunct1] absent
    by (simp add: demo_env_def mxid_def)
  have join_raises: "ensure_joined ?T ''coder'' ''!town:localhost'' init_sender =
        (Inl HTTPError, init_sender\<lparr>http_log :=
           [(Join ''!town:localhost'' ''@agent-coder:localhost'', NetworkError)]\<rparr>)"
    using ensure_joined_only_after_200 [where E = ?T and a = "''coder''" and r = "''!town:localhost''"
        and s = init_sender,
        THEN conjunct2, THEN conjunct2, THEN conjunct2, THEN conjunct2, THEN conjunct2,
        THEN conjunct1]
    by (simp add: demo_env_def synapse_timing_out_def init_sender_def mxid_def)
  have invite_raises: "ensure_joined ?I1 ''coder'' ''!town:localhost'' init_sender =
        (Inl HTTPError, init_sender\<lparr>http_log :=
           [(Join ''!town:localhost'' ''@agent-coder:localhost'', Answer ?refused),
            (Invite ''!town:localhost'' ''@agent-coder:localhost'', NetworkError)]\<rparr>)"
    using ensure_joined_only_after_200 [where E = ?I1 and a = "''coder''" and r = "''!town:localhost''"
        and s = init_sender and ?r1.0 = ?refused,
        THEN conjunct2, THEN conjunct2, THEN conjunct2, THEN conjunct2, THEN conjunct2,
        THEN conjunct2, THEN conjunct1]
    by (simp add: demo_env_def synapse_invite_only_def error_response_def init_sender_def mxid_def)
  have rejoin_raises: "ensure_joined ?I2 ''coder'' ''!town:localhost'' init_sender =
        (Inl HTTPError, init_sender\<lparr>http_log :=
           [(Join ''!town:localhost'' ''@agent-coder:localhost'', Answer ?refused),
            (Invite ''!town:localhost'' ''@agent-coder:localhost'', Answer ?fine),
            (Join ''!town:localhost'' ''@agent-coder:localhost'', NetworkError)]\<rparr>)"
    using ensure_joined_only_after_200 [where E = ?I2 and a = "''coder''" and r = "''!town:localhost''"
        and s = init_sender and ?r1.0 = ?refused and ri = ?fine,
        THEN conjunct2, THEN conjunct2, THEN conjunct2, THEN conjunct2, THEN conjunct2,
        THEN conjunct2, THEN conjunct2, THEN conjunct1]
    by (simp add: demo_env_def synapse_invite_only_def ok_response_def error_response_def
        init_sender_def mxid_def)
  have direct: "ensure_joined ?E ''coder'' ''!town:localhost'' init_sender =
        (Inr (), init_sender\<lparr>http_log :=
           [(Join ''!town:localhost'' ''@agent-coder:localhost'', Answer ?fine)],
           joined := {(''coder'', ''!town:localhost'')}\<rparr>)"
    using ensure_joined_only_after_200 [where E = ?E and a = "''coder''" and r = "''!town:localhost''"
        and s = init_sender and ?r1.0 = ?fine,
        THEN conjunct2, THEN conjunct2, THEN conjunct2, THEN conjunct2, THEN conjunct2,
        THEN conjunct2, THEN conjunct2, THEN conjunct2, THEN conjunct1]
    by (simp add: demo_env_def synapse_ready_def ok_response_def init_sender_def mxid_def)
  have invited: "ensure_joined ?I3 ''coder'' ''!town:localhost'' init_sender =
        (Inr (), init_sender\<lparr>http_log :=
           [(Join ''!town:localhost'' ''@agent-coder:localhost'', Answer ?refused),
            (Invite ''!town:localhost'' ''@agent-coder:localhost'', Answer ?fine),
            (Join ''!town:localhost'' ''@agent-coder:localhost'', Answer ?fine)],
           joined := {(''coder'', ''!town:localhost'')}\<rparr>)"
    using ensure_joined_only_after_200 [where E = ?I3 and a = "''coder''" and r = "''!town:localhost''"
        and s = init_sender and ?r1.0 = ?refused and ri = ?fine and ?r2.0 = ?fine,
        THEN conjunct2, THEN conjunct2, THEN conjunct2, THEN conjunct2, THEN conjunct2,
        THEN conjunct2, THEN conjunct2, THEN conjunct2, THEN conjunct2, THEN conjunct1]
    by (simp add: demo_env_def synapse_invite_only_def ok_response_def error_response_def
        init_sender_def mxid_def)
  have already: "ensure_joined ?E ''coder'' ''!town:localhost'' ?run = (Inr (), ?run)"
    using ensure_joined_only_after_200 [where E = ?E and a = "''coder''" and r = "''!town:localhost''"
        and s = ?run,
        THEN conjunct2, THEN conjunct2, THEN conjunct2, THEN conjunct2, THEN conjunct2,
        THEN conjunct2, THEN conjunct2, THEN conjunct2, THEN conjunct2, THEN conjunct2] member
    by (rule mp)
  show ?thesis
    by (intro conjI) (fact member ok failure unchanged again join_raises invite_raises
        rejoin_raises direct invited already)+
qed

text \<open>
  Claim C10 as it was stated says that the call returns without raising on any join
  failure. Against the third server the join of \<^verbatim>\<open>coder\<close> fails, because the request
  raises inside httpx, and the call raises.
\<close>

theorem ensure_joined_raises_counterexample:
  "server (demo_env synapse_timing_out) (http_log init_sender)
       (Join ''!town:localhost'' (mxid (demo_env synapse_timing_out) ''coder'')) = NetworkError
   \<and> fst (ensure_joined (demo_env synapse_timing_out) ''coder'' ''!town:localhost'' init_sender)
       = Inl HTTPError"
  by (simp add: ensure_joined_def http_def Let_def demo_env_def synapse_timing_out_def
      init_sender_def mxid_def)

subsection \<open>Portal rooms\<close>

lemma creator_is_bot:
  "py_or c (JStr '''') = JStr (BRIDGE_BOT_MXID E) \<longleftrightarrow> c = JStr (BRIDGE_BOT_MXID E)"
  by (auto simp: py_or_def BRIDGE_BOT_MXID_def)

lemma room_matches_JObj:
  "room_matches E ch (JObj kv) \<longleftrightarrow>
     dict_get kv ''creator'' = JStr (BRIDGE_BOT_MXID E) \<and>
     (case py_or (dict_get kv ''name'') (JStr []) of JStr nm \<Rightarrow> normalized E nm = ch | _ \<Rightarrow> False)"
  by (simp add: room_matches_def)

lemma room_id_of_JObj: "room_id_of (JObj kv) = py_or (dict_get kv ''room_id'') (JStr [])"
  by (simp add: room_id_of_def)

lemma scan_rooms_Some:
  "scan_rooms E ch rs = Inr (Some rid) \<Longrightarrow>
     \<exists>room \<in> set rs. room_matches E ch room \<and> room_id_of room = rid"
proof (induction rs)
  case Nil
  then show ?case by simp
next
  case (Cons room rs)
  show ?case
  proof (cases room)
    case (JObj kv)
    show ?thesis
    proof (cases "dict_get kv ''creator'' = JStr (BRIDGE_BOT_MXID E)")
      case False
      then have "scan_rooms E ch rs = Inr (Some rid)"
        using Cons.prems JObj by (simp add: Let_def creator_is_bot)
      then show ?thesis using Cons.IH by auto
    next
      case True
      show ?thesis
      proof (cases "py_or (dict_get kv ''name'') (JStr [])")
        case (JStr nm)
        show ?thesis
        proof (cases "normalized E nm = ch")
          case yes: True
          then have "room_id_of room = rid"
            using Cons.prems JObj True JStr by (simp add: Let_def creator_is_bot room_id_of_JObj)
          moreover have "room_matches E ch room"
            using JObj True JStr yes by (simp add: room_matches_JObj)
          ultimately show ?thesis by auto
        next
          case no: False
          then have "scan_rooms E ch rs = Inr (Some rid)"
            using Cons.prems JObj True JStr by (simp add: Let_def creator_is_bot)
          then show ?thesis using Cons.IH by auto
        qed
      qed (use Cons.prems JObj True in \<open>simp_all add: Let_def creator_is_bot\<close>)
    qed
  qed (use Cons.prems in simp_all)
qed

lemma scan_rooms_None:
  "list_all wf_room rs \<Longrightarrow> \<not> list_ex (room_matches E ch) rs \<Longrightarrow> scan_rooms E ch rs = Inr None"
proof (induction rs)
  case Nil
  then show ?case by simp
next
  case (Cons room rs)
  from Cons.prems(1) obtain kv nm where room: "room = JObj kv"
    and nm: "py_or (dict_get kv ''name'') (JStr []) = JStr nm"
    by (auto simp: wf_room_def split: json.splits)
  have rest: "scan_rooms E ch rs = Inr None" using Cons by simp
  have "\<not> room_matches E ch (JObj kv)" using Cons.prems(2) room by simp
  then have "dict_get kv ''creator'' \<noteq> JStr (BRIDGE_BOT_MXID E) \<or> normalized E nm \<noteq> ch"
    using nm by (simp add: room_matches_JObj)
  then show ?case using room nm rest by (auto simp: Let_def creator_is_bot)
qed

lemma was_listed_append: "was_listed E ch rid l \<Longrightarrow> was_listed E ch rid (l @ l')"
  by (auto simp: was_listed_def list_ex_iff)

lemma was_listed_intro:
  assumes "(ListRooms tok, Answer resp) \<in> set l" and "status_code resp = 200"
    and "listed_rooms resp = Inr rooms" and "scan_rooms E ch rooms = Inr (Some rid)"
  shows "was_listed E ch rid l"
proof -
  from scan_rooms_Some [OF assms(4)] obtain room where
    "room \<in> set rooms" "room_matches E ch room \<and> room_id_of room = rid" by blast
  moreover have "listing_of (ListRooms tok, Answer resp) = rooms"
    using assms(2,3) by (simp add: listing_of_def)
  ultimately show ?thesis using assms(1)
    unfolding was_listed_def list_ex_iff by blast
qed

lemma find_portal_room_cached:
  "room_cache s ch = Some rid \<Longrightarrow> find_portal_room E ch s = (Inr (Some rid), s)"
  by (simp add: find_portal_room_def)

lemma find_portal_room_fresh:
  assumes "room_cache s ch = None" and "find_portal_room E ch s = (res, s')"
  shows "\<exists>l. http_log s' = http_log s @ l \<and>
           ((room_cache s' = room_cache s \<and> (\<forall>rid. res \<noteq> Inr (Some rid)))
            \<or> (\<exists>rid tok resp rooms. res = Inr (Some rid) \<and> room_cache s' = (room_cache s)(ch \<mapsto> rid)
                 \<and> (ListRooms tok, Answer resp) \<in> set l \<and> status_code resp = 200
                 \<and> listed_rooms resp = Inr rooms \<and> scan_rooms E ch rooms = Inr (Some rid)))"
proof -
  obtain rt s1 where t: "get_admin_token E s = (rt, s1)" by force
  from get_admin_token_frame [OF t] obtain l1 where
    f1: "room_cache s1 = room_cache s" "http_log s1 = http_log s @ l1" by blast
  show ?thesis
  proof (cases rt)
    case (Inl e)
    with assms t f1 show ?thesis by (auto simp: find_portal_room_def)
  next
    case (Inr tok)
    show ?thesis
    proof (cases "server E (http_log s1) (ListRooms tok)")
      case NetworkError
      with assms t f1 Inr show ?thesis by (auto simp: find_portal_room_def http_def)
    next
      case (Answer resp)
      define s2 where "s2 = s1\<lparr>http_log := http_log s1 @ [(ListRooms tok, Answer resp)]\<rparr>"
      have h: "http E (ListRooms tok) s1 = (Answer resp, s2)"
        using Answer by (simp add: http_def s2_def Let_def)
      have f2: "room_cache s2 = room_cache s" "http_log s2 = http_log s @ (l1 @ [(ListRooms tok, Answer resp)])"
        using f1 by (simp_all add: s2_def)
      show ?thesis
      proof (cases "status_code resp = 200")
        case False
        with assms t Inr h f2 show ?thesis by (auto simp: find_portal_room_def)
      next
        case True
        show ?thesis
        proof (cases "listed_rooms resp")
          case (Inl e)
          with assms t Inr h f2 True show ?thesis by (auto simp: find_portal_room_def)
        next
          case rooms: (Inr rooms)
          show ?thesis
          proof (cases "scan_rooms E ch rooms")
            case (Inl e)
            with assms t Inr h f2 True rooms show ?thesis by (auto simp: find_portal_room_def)
          next
            case sc: (Inr found)
            show ?thesis
            proof (cases found)
              case None
              with assms t Inr h f2 True rooms sc show ?thesis by (auto simp: find_portal_room_def)
            next
              case (Some rid)
              have "res = Inr (Some rid)" "s' = s2\<lparr>room_cache := (room_cache s2)(ch \<mapsto> rid)\<rparr>"
                using assms t Inr h True rooms sc Some by (auto simp: find_portal_room_def)
              then show ?thesis using f2 True rooms sc Some
                by (intro exI [of _ "l1 @ [(ListRooms tok, Answer resp)]"]) auto
            qed
          qed
        qed
      qed
    qed
  qed
qed

lemma cache_inv_frame:
  "cache_inv E s \<Longrightarrow> room_cache s' = room_cache s \<Longrightarrow> http_log s' = http_log s @ l \<Longrightarrow> cache_inv E s'"
  by (auto simp: cache_inv_def intro: was_listed_append)

lemma find_portal_room_cache_inv:
  assumes "cache_inv E s" and "find_portal_room E ch s = (res, s')"
  shows "cache_inv E s'"
proof (cases "room_cache s ch")
  case (Some rid)
  with assms show ?thesis by (simp add: find_portal_room_def)
next
  case None
  from find_portal_room_fresh [OF None assms(2)] obtain l where l: "http_log s' = http_log s @ l"
    and c: "(room_cache s' = room_cache s \<and> (\<forall>rid. res \<noteq> Inr (Some rid)))
            \<or> (\<exists>rid tok resp rooms. res = Inr (Some rid) \<and> room_cache s' = (room_cache s)(ch \<mapsto> rid)
                 \<and> (ListRooms tok, Answer resp) \<in> set l \<and> status_code resp = 200
                 \<and> listed_rooms resp = Inr rooms \<and> scan_rooms E ch rooms = Inr (Some rid))"
    by blast
  from c show ?thesis
  proof
    assume "room_cache s' = room_cache s \<and> (\<forall>rid. res \<noteq> Inr (Some rid))"
    with assms(1) l show ?thesis by (blast intro: cache_inv_frame)
  next
    assume "\<exists>rid tok resp rooms. res = Inr (Some rid) \<and> room_cache s' = (room_cache s)(ch \<mapsto> rid)
                 \<and> (ListRooms tok, Answer resp) \<in> set l \<and> status_code resp = 200
                 \<and> listed_rooms resp = Inr rooms \<and> scan_rooms E ch rooms = Inr (Some rid)"
    then obtain rid tok resp rooms where r: "room_cache s' = (room_cache s)(ch \<mapsto> rid)"
      "(ListRooms tok, Answer resp) \<in> set l" "status_code resp = 200"
      "listed_rooms resp = Inr rooms" "scan_rooms E ch rooms = Inr (Some rid)" by blast
    have "was_listed E ch rid (http_log s')"
      using was_listed_intro [of tok resp "http_log s'" rooms E ch rid] r l by simp
    then show ?thesis using assms(1) r(1) l
      by (auto simp: cache_inv_def intro: was_listed_append)
  qed
qed

lemma find_portal_room_listed:
  assumes "cache_inv E s" and "find_portal_room E ch s = (Inr (Some rid), s')"
  shows "was_listed E ch rid (http_log s')"
proof -
  have "cache_inv E s'" using assms by (rule find_portal_room_cache_inv)
  moreover have "room_cache s' ch = Some rid"
  proof (cases "room_cache s ch")
    case (Some r')
    with assms(2) show ?thesis by (simp add: find_portal_room_def)
  next
    case None
    from find_portal_room_fresh [OF None assms(2)] show ?thesis by auto
  qed
  ultimately show ?thesis by (simp add: cache_inv_def)
qed

lemma exec_call_cache_inv: "cache_inv E s \<Longrightarrow> cache_inv E (exec_call E c s)"
proof (cases c)
  case (CallRegisterAgent a d)
  assume "cache_inv E s"
  then show ?thesis using CallRegisterAgent register_agent_frame [of E a d s]
    by (cases "register_agent E a d s") (auto intro: cache_inv_frame)
next
  case (CallFindPortalRoom ch)
  assume "cache_inv E s"
  then show ?thesis using CallFindPortalRoom find_portal_room_cache_inv [of E s ch]
    by (cases "find_portal_room E ch s") auto
next
  case (CallEnsureJoined a r)
  assume "cache_inv E s"
  then show ?thesis using CallEnsureJoined ensure_joined_frame [of E a r s]
    by (cases "ensure_joined E a r s") (auto intro: cache_inv_frame)
next
  case (CallSendMessage a r m)
  assume "cache_inv E s"
  then show ?thesis using CallSendMessage send_message_frame [of E a r m s]
    by (cases "send_message E a r m s") (auto intro: cache_inv_frame)
qed

lemma exec_calls_cache_inv: "cache_inv E s \<Longrightarrow> cache_inv E (exec_calls E cs s)"
  by (induction cs arbitrary: s) (auto intro: exec_call_cache_inv)

lemma cache_inv_init: "cache_inv E init_sender"
  by (simp add: cache_inv_def init_sender_def)

lemma find_portal_room_resolved:
  assumes "find_portal_room E ch s = (Inr (Some rid), s')"
  shows "room_cache s' ch = Some rid"
proof (cases "room_cache s ch")
  case (Some r')
  with assms show ?thesis by (simp add: find_portal_room_def)
next
  case None
  from find_portal_room_fresh [OF None assms] show ?thesis by auto
qed

lemma find_portal_room_later:
  assumes "find_portal_room E ch s = (Inr (Some rid), s')"
  shows "find_portal_room E ch (exec_calls E cs s') = (Inr (Some rid), exec_calls E cs s')"
proof -
  have "room_cache s' ch = Some rid" using assms by (rule find_portal_room_resolved)
  moreover have "room_cache s' \<subseteq>\<^sub>m room_cache (exec_calls E cs s')"
    using exec_calls_grows [of s' E cs] by (simp add: grows_def)
  ultimately have "room_cache (exec_calls E cs s') ch = Some rid"
    by (auto simp: map_le_def dom_def)
  then show ?thesis by (rule find_portal_room_cached)
qed

lemma find_portal_room_listing_failed:
  assumes "room_cache s ch = None" and "get_admin_token E s = (Inr tok, s1)"
    and "server E (http_log s1) (ListRooms tok) = Answer r" and "status_code r \<noteq> 200"
  shows "find_portal_room E ch s = (Inr None, s1\<lparr>http_log := http_log s1 @ [(ListRooms tok, Answer r)]\<rparr>)"
  using assms by (simp add: find_portal_room_def http_def Let_def)

lemma find_portal_room_no_match:
  assumes "room_cache s ch = None" and "get_admin_token E s = (Inr tok, s1)"
    and "server E (http_log s1) (ListRooms tok) = Answer r" and "status_code r = 200"
    and "listed_rooms r = Inr rooms" and "list_all wf_room rooms"
    and "\<not> list_ex (room_matches E ch) rooms"
  shows "find_portal_room E ch s = (Inr None, s1\<lparr>http_log := http_log s1 @ [(ListRooms tok, Answer r)]\<rparr>)"
  using assms scan_rooms_None [of rooms E ch]
  by (simp add: find_portal_room_def http_def Let_def)

lemma find_portal_room_listing_raises:
  assumes "room_cache s ch = None" and "get_admin_token E s = (Inr tok, s1)"
    and "server E (http_log s1) (ListRooms tok) = NetworkError"
  shows "find_portal_room E ch s = (Inl HTTPError, s1\<lparr>http_log := http_log s1 @ [(ListRooms tok, NetworkError)]\<rparr>)"
  using assms by (simp add: find_portal_room_def http_def Let_def)

text \<open>
  Claim C9, as amended. \<^verbatim>\<open>find_portal_room\<close>:
  \<^item> called after any run of the sender's methods from its initial state, returns a room
    id only if a room listing in the log of exchanges, answered with status 200, holds a
    room with that id whose creator is \<^verbatim>\<open>BRIDGE_BOT_MXID\<close> and whose name, lowercased,
    with spaces replaced by \<^verbatim>\<open>-\<close> and every character outside \<^verbatim>\<open>[a-z0-9-]\<close>
    deleted, is the channel name;
  \<^item> returns \<^verbatim>\<open>None\<close>, and caches nothing, when the channel is not cached, the admin
    token is at hand and the listing is answered with a status other than 200, or with
    rooms as Synapse lists them of which none matches;
  \<^item> raises, and caches nothing, when the listing request raises inside httpx instead of
    being answered;
  \<^item> once it has returned a room id for a channel name, returns that id for the name
    ever after, whatever calls come in between, and leaves the state as it found it, so
    that no request is made.
\<close>

theorem find_portal_room_matches_and_caches:
  "(find_portal_room E ch (exec_calls E cs init_sender) = (Inr (Some rid), s') \<longrightarrow>
       was_listed E ch rid (http_log s'))
   \<and> (room_cache s ch = None \<and> get_admin_token E s = (Inr tok, s1)
        \<and> server E (http_log s1) (ListRooms tok) = Answer r
        \<and> (status_code r \<noteq> 200 \<or>
            (\<exists>rooms. listed_rooms r = Inr rooms \<and> list_all wf_room rooms
                \<and> \<not> list_ex (room_matches E ch) rooms))
      \<longrightarrow> find_portal_room E ch s
            = (Inr None, s1\<lparr>http_log := http_log s1 @ [(ListRooms tok, Answer r)]\<rparr>))
   \<and> (room_cache s ch = None \<and> get_admin_token E s = (Inr tok, s1)
        \<and> server E (http_log s1) (ListRooms tok) = NetworkError
      \<longrightarrow> find_portal_room E ch s
            = (Inl HTTPError, s1\<lparr>http_log := http_log s1 @ [(ListRooms tok, NetworkError)]\<rparr>))
   \<and> (find_portal_room E ch s = (Inr (Some rid), s') \<longrightarrow>
        (\<forall>cs'. find_portal_room E ch (exec_calls E cs' s') = (Inr (Some rid), exec_calls E cs' s')))"
proof (intro conjI impI allI)
  assume "find_portal_room E ch (exec_calls E cs init_sender) = (Inr (Some rid), s')"
  moreover have "cache_inv E (exec_calls E cs init_sender)"
    by (intro exec_calls_cache_inv cache_inv_init)
  ultimately show "was_listed E ch rid (http_log s')"
    by (blast intro: find_portal_room_listed)
next
  assume a: "room_cache s ch = None \<and> get_admin_token E s = (Inr tok, s1)
        \<and> server E (http_log s1) (ListRooms tok) = Answer r
        \<and> (status_code r \<noteq> 200 \<or>
            (\<exists>rooms. listed_rooms r = Inr rooms \<and> list_all wf_room rooms
                \<and> \<not> list_ex (room_matches E ch) rooms))"
  show "find_portal_room E ch s
            = (Inr None, s1\<lparr>http_log := http_log s1 @ [(ListRooms tok, Answer r)]\<rparr>)"
  proof (cases "status_code r = 200")
    case False
    with a show ?thesis by (blast intro: find_portal_room_listing_failed)
  next
    case True
    with a show ?thesis by (blast intro: find_portal_room_no_match)
  qed
next
  assume "room_cache s ch = None \<and> get_admin_token E s = (Inr tok, s1)
        \<and> server E (http_log s1) (ListRooms tok) = NetworkError"
  then show "find_portal_room E ch s
            = (Inl HTTPError, s1\<lparr>http_log := http_log s1 @ [(ListRooms tok, NetworkError)]\<rparr>)"
    by (blast intro: find_portal_room_listing_raises)
next
  fix cs'
  assume "find_portal_room E ch s = (Inr (Some rid), s')"
  then show "find_portal_room E ch (exec_calls E cs' s') = (Inr (Some rid), exec_calls E cs' s')"
    by (rule find_portal_room_later)
qed

text \<open>
  Against the first server \<^verbatim>\<open>town-square\<close> resolves to the room named
  \<^verbatim>\<open>Town Square\<close> that the bridge bot created, not to the room of that very name that
  the admin created; the listing is in the log, and a later call answers from the cache.
  No room matches \<^verbatim>\<open>lobby\<close>; the second server fails the listing; the third lets the
  listing request raise.
\<close>

theorem find_portal_room_matches_and_caches_witness:
  "fst (find_portal_room (demo_env synapse_ready) ''town-square'' init_sender)
      = Inr (Some (JStr ''!town:localhost''))
   \<and> was_listed (demo_env synapse_ready) ''town-square'' (JStr ''!town:localhost'')
        (http_log (snd (find_portal_room (demo_env synapse_ready) ''town-square'' init_sender)))
   \<and> find_portal_room (demo_env synapse_ready) ''town-square''
        (exec_calls (demo_env synapse_ready) [CallEnsureJoined ''coder'' ''!town:localhost'']
           (snd (find_portal_room (demo_env synapse_ready) ''town-square'' init_sender)))
      = (Inr (Some (JStr ''!town:localhost'')),
         exec_calls (demo_env synapse_ready) [CallEnsureJoined ''coder'' ''!town:localhost'']
           (snd (find_portal_room (demo_env synapse_ready) ''town-square'' init_sender)))
   \<and> fst (find_portal_room (demo_env synapse_refusing) ''town-square'' init_sender) = Inr None
   \<and> fst (find_portal_room (demo_env synapse_ready) ''lobby'' init_sender) = Inr None
   \<and> fst (find_portal_room (demo_env synapse_timing_out) ''lobby'' init_sender) = Inl HTTPError"
proof -
  let ?E = "demo_env synapse_ready"
  let ?s' = "snd (find_portal_room ?E ''town-square'' init_sender)"
  have found: "fst (find_portal_room ?E ''town-square'' init_sender) = Inr (Some (JStr ''!town:localhost''))"
    by (simp add: find_portal_room_def get_admin_token_def http_def Let_def listed_rooms_def
        demo_env_def synapse_ready_def ok_response_def init_sender_def town_square_def lobby_def
        py_or_def dict_get_def BRIDGE_BOT_MXID_def normalized_def slug_char_def ascii_lower_def)
  then have eq: "find_portal_room ?E ''town-square'' init_sender = (Inr (Some (JStr ''!town:localhost'')), ?s')"
    by (simp add: prod_eq_iff)
  have listed: "was_listed ?E ''town-square'' (JStr ''!town:localhost'') (http_log ?s')"
    using find_portal_room_matches_and_caches [where E = ?E and ch = "''town-square''" and cs = "[]"
        and rid = "JStr ''!town:localhost''" and s' = ?s' and s = init_sender] eq
    by simp
  have cached: "find_portal_room ?E ''town-square''
        (exec_calls ?E [CallEnsureJoined ''coder'' ''!town:localhost''] ?s')
      = (Inr (Some (JStr ''!town:localhost'')),
         exec_calls ?E [CallEnsureJoined ''coder'' ''!town:localhost''] ?s')"
    using find_portal_room_matches_and_caches [where E = ?E and ch = "''town-square''" and cs = "[]"
        and rid = "JStr ''!town:localhost''" and s' = ?s' and s = init_sender] eq
    by blast
  have tok: "get_admin_token (demo_env synapse_refusing) init_sender =
      (Inr (JStr ''syt_admin''), admin_logged_in)"
    by (simp add: get_admin_token_def http_def Let_def demo_env_def synapse_refusing_def
        ok_response_def init_sender_def admin_logged_in_def)
  have failed: "fst (find_portal_room (demo_env synapse_refusing) ''town-square'' init_sender) = Inr None"
    using find_portal_room_matches_and_caches [where E = "demo_env synapse_refusing"
        and ch = "''town-square''" and s = init_sender
        and tok = "JStr ''syt_admin''" and r = "error_response 500 ''M_UNKNOWN''"
        and ?s1.0 = admin_logged_in] tok
    by (simp add: demo_env_def synapse_refusing_def error_response_def init_sender_def
        admin_logged_in_def)
  have tok2: "get_admin_token ?E init_sender = (Inr (JStr ''syt_admin''), admin_logged_in)"
    by (simp add: get_admin_token_def http_def Let_def demo_env_def synapse_ready_def
        ok_response_def init_sender_def admin_logged_in_def)
  have none: "fst (find_portal_room ?E ''lobby'' init_sender) = Inr None"
    using find_portal_room_matches_and_caches [where E = ?E and ch = "''lobby''" and s = init_sender
        and tok = "JStr ''syt_admin''" and r = "ok_response (JObj [(''rooms'', JArr [lobby, town_square])])"
        and ?s1.0 = admin_logged_in] tok2
    by (simp add: demo_env_def synapse_ready_def ok_response_def init_sender_def admin_logged_in_def
        listed_rooms_def town_square_def lobby_def wf_room_def room_matches_def py_or_def
        dict_get_def BRIDGE_BOT_MXID_def normalized_def slug_char_def ascii_lower_def)
  have tok3: "get_admin_token (demo_env synapse_timing_out) init_sender =
      (Inr (JStr ''syt_admin''), admin_logged_in)"
    by (simp add: get_admin_token_def http_def Let_def demo_env_def synapse_timing_out_def
        ok_response_def init_sender_def admin_logged_in_def)
  have raised: "fst (find_portal_room (demo_env synapse_timing_out) ''lobby'' init_sender) = Inl HTTPError"
    using find_portal_room_matches_and_caches [where E = "demo_env synapse_timing_out"
        and ch = "''lobby''" and s = init_sender and tok = "JStr ''syt_admin''"
        and ?s1.0 = admin_logged_in] tok3
    by (simp add: demo_env_def synapse_timing_out_def init_sender_def admin_logged_in_def)
  from found listed cached failed none raised show ?thesis by blast
qed

text \<open>
  Claim C9 as it was stated says that the call returns \<^verbatim>\<open>None\<close> rather than raising
  when the room listing request fails. Against the third server the admin logs in, the
  listing request fails, because it raises inside httpx, and the call raises.
\<close>

theorem find_portal_room_raises_counterexample:
  "get_admin_token (demo_env synapse_timing_out) init_sender = (Inr (JStr ''syt_admin''), admin_logged_in)
   \<and> server (demo_env synapse_timing_out) (http_log admin_logged_in) (ListRooms (JStr ''syt_admin''))
       = NetworkError
   \<and> fst (find_portal_room (demo_env synapse_timing_out) ''town-square'' init_sender) = Inl HTTPError"
  by (simp add: find_portal_room_def get_admin_token_def http_def Let_def demo_env_def
      synapse_timing_out_def ok_response_def init_sender_def admin_logged_in_def)

section \<open>Properties of the quoted router\<close>

text \<open>
  Claim C1. For an event whose origin metadata names a known puppet and whose raw sender
  is another known puppet, \<^verbatim>\<open>resolvePostClient\<close> returns the client and the user id of
  the puppet that the metadata names; where the two puppets differ, that is not what the
  raw sender's puppet would give. Path 1 comes before path 2 and path 2 before path 3:
  the raw sender's puppet is used only when the metadata names no puppet, and the relay
  client only when neither names one.
\<close>

theorem resolvePostClient_metadata_first:
  "(Puppets m (OrigUserID os) = Some p \<and> Puppets m (Sender e) = Some q \<and> OrigUserID os \<noteq> Sender e
      \<longrightarrow> resolvePostClient m (Some os) (Some e) = Inr (Client p, UserID p)
          \<and> ((Client q, UserID q) \<noteq> (Client p, UserID p)
               \<longrightarrow> resolvePostClient m (Some os) (Some e) \<noteq> Inr (Client q, UserID q)))
   \<and> (Puppets m (OrigUserID os) = None \<and> Puppets m (Sender e) = Some q
      \<longrightarrow> resolvePostClient m (Some os) (Some e) = Inr (Client q, UserID q))
   \<and> (Puppets m (OrigUserID os) = None \<and> Puppets m (Sender e) = None
      \<longrightarrow> resolvePostClient m (Some os) (Some e) = Inr (client m, userID m))"
  by (auto simp: resolvePostClient_def)

text \<open>
  Metadata naming \<^verbatim>\<open>coder\<close> wins over the sender \<^verbatim>\<open>researcher\<close>; metadata naming the
  bridge bot, which has no puppet, leaves the choice to the sender, and an unknown sender
  to the relay client.
\<close>

theorem resolvePostClient_metadata_first_witness:
  "resolvePostClient demo_bridge (Some \<lparr>OrigUserID = ''@agent-coder:localhost''\<rparr>)
       (Some \<lparr>Sender = ''@agent-researcher:localhost''\<rparr>) = Inr (''token-coder'', ''mm-coder'')
   \<and> resolvePostClient demo_bridge (Some \<lparr>OrigUserID = ''@agent-coder:localhost''\<rparr>)
       (Some \<lparr>Sender = ''@agent-researcher:localhost''\<rparr>) \<noteq> Inr (''token-researcher'', ''mm-researcher'')
   \<and> resolvePostClient demo_bridge (Some \<lparr>OrigUserID = ''@mattermostbot:localhost''\<rparr>)
       (Some \<lparr>Sender = ''@agent-researcher:localhost''\<rparr>) = Inr (''token-researcher'', ''mm-researcher'')
   \<and> resolvePostClient demo_bridge (Some \<lparr>OrigUserID = ''@mattermostbot:localhost''\<rparr>)
       (Some \<lparr>Sender = ''@alice:localhost''\<rparr>) = Inr (''token-relay'', ''mm-relay'')"
proof -
  let ?coder = "\<lparr>Client = ''token-coder'', UserID = ''mm-coder''\<rparr>"
  let ?researcher = "\<lparr>Client = ''token-researcher'', UserID = ''mm-researcher''\<rparr>"
  have one: "resolvePostClient demo_bridge (Some \<lparr>OrigUserID = ''@agent-coder:localhost''\<rparr>)
       (Some \<lparr>Sender = ''@agent-researcher:localhost''\<rparr>) = Inr (''token-coder'', ''mm-coder'')
     \<and> resolvePostClient demo_bridge (Some \<lparr>OrigUserID = ''@agent-coder:localhost''\<rparr>)
       (Some \<lparr>Sender = ''@agent-researcher:localhost''\<rparr>) \<noteq> Inr (''token-researcher'', ''mm-researcher'')"
    using resolvePostClient_metadata_first [where m = demo_bridge and os = "\<lparr>OrigUserID = ''@agent-coder:localhost''\<rparr>"
        and e = "\<lparr>Sender = ''@agent-researcher:localhost''\<rparr>" and p = ?coder and q = ?researcher]
    by (simp add: demo_bridge_def)
  have two: "resolvePostClient demo_bridge (Some \<lparr>OrigUserID = ''@mattermostbot:localhost''\<rparr>)
       (Some \<lparr>Sender = ''@agent-researcher:localhost''\<rparr>) = Inr (''token-researcher'', ''mm-researcher'')"
    using resolvePostClient_metadata_first [where m = demo_bridge and os = "\<lparr>OrigUserID = ''@mattermostbot:localhost''\<rparr>"
        and e = "\<lparr>Sender = ''@agent-researcher:localhost''\<rparr>" and q = ?researcher]
    by (simp add: demo_bridge_def)
  have three: "resolvePostClient demo_bridge (Some \<lparr>OrigUserID = ''@mattermostbot:localhost''\<rparr>)
       (Some \<lparr>Sender = ''@alice:localhost''\<rparr>) = Inr (''token-relay'', ''mm-relay'')"
    using resolvePostClient_metadata_first [where m = demo_bridge and os = "\<lparr>OrigUserID = ''@mattermostbot:localhost''\<rparr>"
        and e = "\<lparr>Sender = ''@alice:localhost''\<rparr>"]
    by (simp add: demo_bridge_def)
  from one two three show ?thesis by blast
qed

section \<open>Properties of the relay engine of the specification\<close>

lemma early_echo_iff:
  "early_echo B ev \<longleftrightarrow>
     sender_identity ev = bot_identity B \<or> relayed_marker ev
     \<or> lookupByDestination (puppets B) (sender_identity ev) \<noteq> None"
  by (auto simp: early_echo_def echo_rule_def)

lemma ingest_frame:
  "puppets (snd (ingest send_as B ev)) = puppets B
   \<and> bot_identity (snd (ingest send_as B ev)) = bot_identity B
   \<and> (relay_calls (snd (ingest send_as B ev)) = relay_calls B
      \<or> (\<not> isEcho B ev \<and> relay_calls (snd (ingest send_as B ev)) = relay_calls B @ [ev]))"
  by (auto simp: ingest_def relay_def Let_def split: prod.splits sum.splits)

lemma early_echo_cong:
  "puppets B' = puppets B \<Longrightarrow> bot_identity B' = bot_identity B \<Longrightarrow> early_echo B' ev = early_echo B ev"
  by (simp add: early_echo_iff)

lemma early_echo_isEcho: "early_echo B ev \<Longrightarrow> isEcho B ev"
  by (auto simp: early_echo_def isEcho_def)

lemma ingest_all_never_relays:
  "early_echo B ev \<Longrightarrow> ev \<notin> set (relay_calls B) \<Longrightarrow> ev \<notin> set (relay_calls (ingest_all send_as B evs))"
proof (induction evs arbitrary: B)
  case Nil
  then show ?case by simp
next
  case (Cons e evs)
  let ?B' = "snd (ingest send_as B e)"
  have fr: "puppets ?B' = puppets B" "bot_identity ?B' = bot_identity B"
    using ingest_frame [of send_as B e] by simp_all
  have "early_echo ?B' ev" using Cons.prems(1) early_echo_cong [OF fr] by simp
  moreover have "ev \<notin> set (relay_calls ?B')"
  proof (cases "relay_calls ?B' = relay_calls B")
    case True
    with Cons.prems(2) show ?thesis by simp
  next
    case False
    then have ne: "\<not> isEcho B e" and rc: "relay_calls ?B' = relay_calls B @ [e]"
      using ingest_frame [of send_as B e] by auto
    have "e \<noteq> ev" using ne Cons.prems(1) early_echo_isEcho by auto
    with rc Cons.prems(2) show ?thesis by simp
  qed
  ultimately show ?case using Cons.IH [of ?B'] by simp
qed

text \<open>
  Claim C2. When neither the origin metadata nor the sender of an event has a puppet, the
  identity resolves to the configured relay credential, the payload that goes out is the
  sender's identity, a colon and a space, and the event's payload, and what \<^verbatim>\<open>relay\<close>
  returns is what the destination API answers to that post under that credential: the
  relay succeeds whenever the destination accepts the post, and there is no failure for
  want of a mapped identity. The Ingestion Loop drops an event only when the Echo Guard
  calls it an echo.
\<close>

theorem relay_fallback_never_drops:
  "(path_metadata B ev = None \<and> lookup (puppets B) (sender_identity ev) = None \<longrightarrow>
      resolveOutboundIdentity B ev = (relay_credential B, relay_identity B)
      \<and> outbound_payload B ev = sender_identity ev @ '': '' @ payload ev
      \<and> fst (relay send_as B ev)
          = send_as (relay_credential B) (channel_id ev) (sender_identity ev @ '': '' @ payload ev))
   \<and> (fst (ingest send_as B ev) = Dropped \<longleftrightarrow> isEcho B ev)"
  by (auto simp: resolveOutboundIdentity_def outbound_payload_def relay_def path_sender_def ingest_def
      Let_def split: sum.splits prod.splits)

text \<open>
  The scenario of the specification: the event of sender \<^verbatim>\<open>unknown\<close> with payload
  \<^verbatim>\<open>hey\<close> is posted under the relay credential as \<^verbatim>\<open>unknown: hey\<close> and is not
  dropped; the event of \<^verbatim>\<open>u1\<close> is posted under \<^verbatim>\<open>c1\<close> as it is.
\<close>

theorem relay_fallback_never_drops_witness:
  "fst (relay posting_api spec_bridge (spec_event ''unknown'' ''hey'')) = Inr ''c-relay|unknown: hey''
   \<and> fst (ingest posting_api spec_bridge (spec_event ''unknown'' ''hey'')) \<noteq> Dropped
   \<and> fst (relay posting_api spec_bridge (spec_event ''u1'' ''hi'')) = Inr ''c1|hi''"
proof -
  have "fst (relay posting_api spec_bridge (spec_event ''unknown'' ''hey'')) = Inr ''c-relay|unknown: hey''"
    using relay_fallback_never_drops [where B = spec_bridge and ev = "spec_event ''unknown'' ''hey''" and send_as = posting_api]
    by (simp add: spec_bridge_def spec_event_def posting_api_def path_metadata_def lookup_def)
  moreover have "fst (ingest posting_api spec_bridge (spec_event ''unknown'' ''hey'')) \<noteq> Dropped"
    using relay_fallback_never_drops [where B = spec_bridge and ev = "spec_event ''unknown'' ''hey''" and send_as = posting_api]
    by (simp add: spec_bridge_def spec_event_def isEcho_def echo_rule_def lookupByDestination_def)
  moreover have "fst (relay posting_api spec_bridge (spec_event ''u1'' ''hi'')) = Inr ''c1|hi''"
    by (simp add: spec_bridge_def spec_event_def posting_api_def path_metadata_def path_sender_def
        lookup_def relay_def resolveOutboundIdentity_def outbound_payload_def)
  ultimately show ?thesis by blast
qed

text \<open>
  Claim C3. An event that is an echo by rule 1, 2 or 3 (its sender is the bridge's own bot
  account, it carries the relayed marker, or its sender is in the destination-identity
  index of the Puppet Map) is dropped by the Ingestion Loop with the bridge as it was, and
  \<^verbatim>\<open>relay\<close> is not invoked on it however many events of the room are handled. The four
  rules apply in order and the first match wins: rule \<open>n\<close> decides exactly when it
  matches and no earlier rule does.
\<close>

theorem early_echo_never_relayed:
  "(early_echo B ev \<longrightarrow> isEcho B ev \<and> ingest send_as B ev = (Dropped, B)
       \<and> (ev \<notin> set (relay_calls B) \<longrightarrow> ev \<notin> set (relay_calls (ingest_all send_as B evs))))
   \<and> (echo_rule B ev = Some 1 \<longleftrightarrow> sender_identity ev = bot_identity B)
   \<and> (echo_rule B ev = Some 2 \<longleftrightarrow> sender_identity ev \<noteq> bot_identity B \<and> relayed_marker ev)
   \<and> (echo_rule B ev = Some 3 \<longleftrightarrow> sender_identity ev \<noteq> bot_identity B \<and> \<not> relayed_marker ev
          \<and> lookupByDestination (puppets B) (sender_identity ev) \<noteq> None)
   \<and> (echo_rule B ev = Some 4 \<longleftrightarrow> sender_identity ev \<noteq> bot_identity B \<and> \<not> relayed_marker ev
          \<and> lookupByDestination (puppets B) (sender_identity ev) = None
          \<and> list_ex (\<lambda>r. record_matches B r ev) (relay_records B))
   \<and> (isEcho B ev \<longleftrightarrow> (\<exists>n. echo_rule B ev = Some n))"
proof (intro conjI impI)
  assume e: "early_echo B ev"
  then show "isEcho B ev" by (rule early_echo_isEcho)
  then show "ingest send_as B ev = (Dropped, B)" by (simp add: ingest_def)
  assume "ev \<notin> set (relay_calls B)"
  with e show "ev \<notin> set (relay_calls (ingest_all send_as B evs))" by (rule ingest_all_never_relays)
qed (auto simp: echo_rule_def isEcho_def)

text \<open>
  The scenario of the specification: an event sent by the puppet account \<^verbatim>\<open>d1\<close> is an
  echo by rule 3 and is dropped; of the three events of the room, \<^verbatim>\<open>relay\<close> is invoked
  on the other two only.
\<close>

theorem early_echo_never_relayed_witness:
  "echo_rule spec_bridge (spec_event ''d1'' ''hi'') = Some 3
   \<and> ingest posting_api spec_bridge (spec_event ''d1'' ''hi'') = (Dropped, spec_bridge)
   \<and> spec_event ''d1'' ''hi'' \<notin> set (relay_calls
         (ingest_all posting_api spec_bridge
            [spec_event ''u1'' ''hi'', spec_event ''d1'' ''hi'', spec_event ''unknown'' ''hey'']))
   \<and> relay_calls (ingest_all posting_api spec_bridge
            [spec_event ''u1'' ''hi'', spec_event ''d1'' ''hi'', spec_event ''unknown'' ''hey''])
       = [spec_event ''u1'' ''hi'', spec_event ''unknown'' ''hey'']"
proof -
  let ?ev = "spec_event ''d1'' ''hi''"
  let ?evs = "[spec_event ''u1'' ''hi'', spec_event ''d1'' ''hi'', spec_event ''unknown'' ''hey'']"
  have r3: "echo_rule spec_bridge ?ev = Some 3"
    using early_echo_never_relayed [where B = spec_bridge and ev = ?ev]
    by (simp add: spec_bridge_def spec_event_def lookupByDestination_def)
  then have early: "early_echo spec_bridge ?ev" by (simp add: early_echo_def)
  have fresh: "?ev \<notin> set (relay_calls spec_bridge)" by (simp add: spec_bridge_def)
  have "ingest posting_api spec_bridge ?ev = (Dropped, spec_bridge)
        \<and> ?ev \<notin> set (relay_calls (ingest_all posting_api spec_bridge ?evs))"
    using early_echo_never_relayed [where B = spec_bridge and ev = ?ev and send_as = posting_api and evs = ?evs] early fresh
    by blast
  moreover have "relay_calls (ingest_all posting_api spec_bridge ?evs)
       = [spec_event ''u1'' ''hi'', spec_event ''unknown'' ''hey'']"
    by (simp add: spec_bridge_def spec_event_def posting_api_def ingest_def isEcho_def echo_rule_def
        lookupByDestination_def relay_def Let_def resolveOutboundIdentity_def outbound_payload_def
        path_metadata_def path_sender_def lookup_def)
  ultimately show ?thesis using r3 by blast
qed

end
